theory Spec2Isabelle
  imports Main "HOL-Library.AList" "HOL-Library.Sublist"
begin

section \<open>Python values, objects and the object store\<close>

text \<open>
  The exporter of \<^verbatim>\<open>container_export.py\<close> works on Python dictionaries and lists
  that are shared by reference: \<^verbatim>\<open>create_metadata_dict\<close> binds names to objects of
  its arguments and then writes through those names. Scalars are values; a dictionary or
  a list is an object of the store, and a value refers to it by its address (\<open>PRef\<close>).
  The store is the list of all objects allocated so far: an address is an index, a new
  object is appended. Dictionaries keep their keys in insertion order, as Python's do;
  the keys are strings (the containers and templates are JSON or YAML documents).
\<close>

datatype pyval = PNone | PBool bool | PInt int | PStr string | PRef nat

datatype pyobj = ODict "(string \<times> pyval) list" | OList "pyval list"

type_synonym heap = "pyobj list"

datatype pyerr =
  ValueError | TypeError | AttributeError | KeyError | NameError | OSError | ApiException

text \<open>Sequencing of steps that may raise: the first exception ends the run.\<close>

definition and_then :: "pyerr + 'a \<Rightarrow> ('a \<Rightarrow> pyerr + 'b) \<Rightarrow> pyerr + 'b" where
  "and_then m f = (case m of Inl e \<Rightarrow> Inl e | Inr x \<Rightarrow> f x)"

definition alloc :: "heap \<Rightarrow> pyobj \<Rightarrow> pyval \<times> heap" where
  "alloc h obj = (PRef (length h), h @ [obj])"

definition obj_at :: "heap \<Rightarrow> nat \<Rightarrow> pyobj option" where
  "obj_at h a = (if a < length h then Some (h ! a) else None)"

text \<open>\<^verbatim>\<open>isinstance(v, dict)\<close> and \<^verbatim>\<open>isinstance(v, list)\<close>, with the object's content.\<close>

fun as_dict :: "heap \<Rightarrow> pyval \<Rightarrow> (string \<times> pyval) list option" where
  "as_dict h (PRef a) = (case obj_at h a of Some (ODict kvs) \<Rightarrow> Some kvs | _ \<Rightarrow> None)"
| "as_dict h v = None"

fun as_list :: "heap \<Rightarrow> pyval \<Rightarrow> pyval list option" where
  "as_list h (PRef a) = (case obj_at h a of Some (OList vs) \<Rightarrow> Some vs | _ \<Rightarrow> None)"
| "as_list h v = None"

text \<open>Truth value of an object: \<^verbatim>\<open>None\<close>, \<^verbatim>\<open>False\<close>, zero and empty containers are false.\<close>

fun truthy :: "heap \<Rightarrow> pyval \<Rightarrow> bool" where
  "truthy h PNone = False"
| "truthy h (PBool b) = b"
| "truthy h (PInt i) = (i \<noteq> 0)"
| "truthy h (PStr s) = (s \<noteq> [])"
| "truthy h (PRef a) =
     (case obj_at h a of Some (ODict kvs) \<Rightarrow> kvs \<noteq> [] | Some (OList vs) \<Rightarrow> vs \<noteq> [] | None \<Rightarrow> True)"

text \<open>\<^verbatim>\<open>d.get(k)\<close> on the content of a dictionary: \<^verbatim>\<open>None\<close> for a missing key.\<close>

definition dict_get :: "(string \<times> pyval) list \<Rightarrow> string \<Rightarrow> pyval" where
  "dict_get kvs k = (case map_of kvs k of Some v \<Rightarrow> v | None \<Rightarrow> PNone)"

text \<open>\<^verbatim>\<open>x.get(k)\<close> on any value: only a dictionary has the attribute.\<close>

definition py_get :: "heap \<Rightarrow> pyval \<Rightarrow> string \<Rightarrow> pyerr + pyval" where
  "py_get h x k = (case as_dict h x of Some kvs \<Rightarrow> Inr (dict_get kvs k) | None \<Rightarrow> Inl AttributeError)"

text \<open>\<^verbatim>\<open>x[k]\<close> for a string key \<open>k\<close>.\<close>

definition py_getitem :: "heap \<Rightarrow> pyval \<Rightarrow> string \<Rightarrow> pyerr + pyval" where
  "py_getitem h x k =
     (case as_dict h x of
        Some kvs \<Rightarrow> (case map_of kvs k of Some v \<Rightarrow> Inr v | None \<Rightarrow> Inl KeyError)
      | None \<Rightarrow> Inl TypeError)"

text \<open>
  \<^verbatim>\<open>x[k] = v\<close> for a string key \<open>k\<close>: the dictionary object itself is updated, so every
  name bound to it sees the new entry. \<^verbatim>\<open>None\<close>, scalars and lists refuse the assignment.
\<close>

definition py_setitem :: "heap \<Rightarrow> pyval \<Rightarrow> string \<Rightarrow> pyval \<Rightarrow> pyerr + heap" where
  "py_setitem h x k v =
     (case x of
        PRef a \<Rightarrow>
          (case obj_at h a of
             Some (ODict kvs) \<Rightarrow> Inr (h[a := ODict (AList.update k v kvs)])
           | _ \<Rightarrow> Inl TypeError)
      | _ \<Rightarrow> Inl TypeError)"

text \<open>\<^verbatim>\<open>x.append(v)\<close>: the list object itself grows.\<close>

definition py_append :: "heap \<Rightarrow> pyval \<Rightarrow> pyval \<Rightarrow> pyerr + heap" where
  "py_append h x v =
     (case x of
        PRef a \<Rightarrow>
          (case obj_at h a of
             Some (OList vs) \<Rightarrow> Inr (h[a := OList (vs @ [v])])
           | _ \<Rightarrow> Inl AttributeError)
      | _ \<Rightarrow> Inl AttributeError)"

text \<open>
  \<^verbatim>\<open>s in x\<close> for a string \<open>s\<close> and a list \<open>x\<close>: a string equals only a string, so
  the test is membership of \<open>PStr s\<close>.
\<close>

definition str_in_list :: "heap \<Rightarrow> string \<Rightarrow> pyval \<Rightarrow> pyerr + bool" where
  "str_in_list h s x = (case as_list h x of Some vs \<Rightarrow> Inr (PStr s \<in> set vs) | None \<Rightarrow> Inl TypeError)"

text \<open>\<^verbatim>\<open>str.lower()\<close> on ASCII letters.\<close>

definition lower_char :: "char \<Rightarrow> char" where
  "lower_char c =
     (case map_of (zip ''ABCDEFGHIJKLMNOPQRSTUVWXYZ'' ''abcdefghijklmnopqrstuvwxyz'') c of
        Some d \<Rightarrow> d | None \<Rightarrow> c)"

definition lower :: "string \<Rightarrow> string" where
  "lower s = map lower_char s"

section \<open>The metadata reconciler: \<^verbatim>\<open>create_metadata_dict\<close>\<close>

definition META_WHITELIST_DICT :: "string \<Rightarrow> string list option" where
  "META_WHITELIST_DICT t =
     (if t = ''acquisition'' then Some [''timestamp'', ''timezone'', ''uid'']
      else if t = ''subject'' then
        Some [''firstname'', ''lastname'', ''sex'', ''cohort'', ''ethnicity'', ''race'',
              ''species'', ''strain'']
      else if t = ''session'' then
        Some [''age'', ''operator'', ''timestamp'', ''timezone'', ''uid'', ''weight'']
      else None)"

text \<open>
  \<^verbatim>\<open>hash_string\<close>: the SHA-1 hex digest of the string. The digest function is
  \<^verbatim>\<open>hashlib\<close>'s; it is the parameter \<open>sha1\<close> of everything that hashes.
\<close>

definition hash_string :: "(string \<Rightarrow> string) \<Rightarrow> string \<Rightarrow> string" where
  "hash_string sha1 input_str = sha1 input_str"

text \<open>
  Lines 144 to 148: the metadata whitelist of the configuration. A list is taken as it
  is (the name \<^verbatim>\<open>meta_wl\<close> is bound to the configuration's own list object); the string
  \<^verbatim>\<open>all\<close>, in any case, stands for a new list of the type's fields, and
  \<^verbatim>\<open>list(None)\<close> raises for a type the table does not have.
\<close>

definition metadata_whitelist :: "heap \<Rightarrow> string \<Rightarrow> pyval \<Rightarrow> pyval \<Rightarrow> pyerr + (pyval \<times> heap)" where
  "metadata_whitelist h container_type m meta_wl =
     (if as_list h m \<noteq> None then Inr (m, h)
      else case m of
        PStr s \<Rightarrow>
          (if lower s = ''all'' then
             (case META_WHITELIST_DICT container_type of
                None \<Rightarrow> Inl TypeError
              | Some allowed \<Rightarrow> Inr (alloc h (OList (map PStr allowed))))
           else Inr (meta_wl, h))
      | _ \<Rightarrow> Inr (meta_wl, h))"

text \<open>
  Lines 149 to 153: the info whitelist. The string \<^verbatim>\<open>all\<close> appends \<^verbatim>\<open>'info'\<close> to
  the list \<^verbatim>\<open>meta_wl\<close> is bound to, whichever list that is.
\<close>

definition info_whitelist :: "heap \<Rightarrow> pyval \<Rightarrow> pyval \<Rightarrow> pyval \<Rightarrow> pyerr + (pyval \<times> pyval \<times> heap)" where
  "info_whitelist h i meta_wl info_wl =
     (if as_list h i \<noteq> None then Inr (meta_wl, i, h)
      else case i of
        PStr s \<Rightarrow>
          (if lower s = ''all'' then
             and_then (py_append h meta_wl (PStr ''info'')) (\<lambda>h'. Inr (meta_wl, info_wl, h'))
           else Inr (meta_wl, info_wl, h))
      | _ \<Rightarrow> Inr (meta_wl, info_wl, h))"

text \<open>Lines 137 to 153: both whitelists start as new empty lists.\<close>

definition parse_whitelists :: "heap \<Rightarrow> string \<Rightarrow> pyval \<Rightarrow> pyerr + (pyval \<times> pyval \<times> heap)" where
  "parse_whitelists h container_type container_config =
     (let (meta_wl, h1) = alloc h (OList []);
          (info_wl, h2) = alloc h1 (OList [])
      in case as_dict h2 container_config of
           None \<Rightarrow> Inr (meta_wl, info_wl, h2)
         | Some config \<Rightarrow>
             (case as_dict h2 (dict_get config ''whitelist'') of
                None \<Rightarrow> Inr (meta_wl, info_wl, h2)
              | Some whitelist_dict \<Rightarrow>
                  and_then
                    (metadata_whitelist h2 container_type (dict_get whitelist_dict ''metadata'') meta_wl)
                    (\<lambda>(meta_wl', h3).
                       info_whitelist h3 (dict_get whitelist_dict ''info'') meta_wl' info_wl)))"

text \<open>
  Lines 162 to 164: the entries of the origin's info whose key is in the info whitelist
  are written to \<^verbatim>\<open>meta_dict['info']\<close>, one assignment per entry.
\<close>

fun copy_info_items :: "heap \<Rightarrow> pyval \<Rightarrow> pyval \<Rightarrow> (string \<times> pyval) list \<Rightarrow> pyerr + heap" where
  "copy_info_items h meta_dict info_wl [] = Inr h"
| "copy_info_items h meta_dict info_wl ((key, v) # items) =
     and_then (str_in_list h key info_wl)
       (\<lambda>listed.
          if listed then
            and_then (py_getitem h meta_dict ''info'')
              (\<lambda>info. and_then (py_setitem h info key v)
                 (\<lambda>h'. copy_info_items h' meta_dict info_wl items))
          else copy_info_items h meta_dict info_wl items)"

text \<open>
  Lines 155 to 164. With \<^verbatim>\<open>'info'\<close> in \<^verbatim>\<open>meta_wl\<close> the entry \<^verbatim>\<open>meta_dict['info']\<close>
  is bound to whatever \<^verbatim>\<open>origin_container.get('info')\<close> is: the origin's own info
  object, or \<^verbatim>\<open>None\<close>.
\<close>

definition build_info :: "heap \<Rightarrow> pyval \<Rightarrow> pyval \<Rightarrow> pyval \<Rightarrow> pyval \<Rightarrow> pyerr + heap" where
  "build_info h origin_container meta_dict meta_wl info_wl =
     (let (info, h1) = alloc h (ODict []) in
      and_then (py_setitem h1 meta_dict ''info'' info)
        (\<lambda>h2. and_then (str_in_list h2 ''info'' meta_wl)
           (\<lambda>whole.
              if whole then
                and_then (py_get h2 origin_container ''info'')
                  (\<lambda>v. py_setitem h2 meta_dict ''info'' v)
              else
                and_then (py_get h2 origin_container ''info'')
                  (\<lambda>v. case as_dict h2 v of
                          None \<Rightarrow> Inr h2
                        | Some items \<Rightarrow> copy_info_items h2 meta_dict info_wl items))))"

text \<open>
  Line 167: \<^verbatim>\<open>meta_dict['info']['export'] = {'origin_id': hash_string(...)}\<close>. The
  right-hand side is evaluated first (\<^verbatim>\<open>encode\<close> exists on strings only), then the
  target \<^verbatim>\<open>meta_dict['info']\<close>, then the entry is written to that object.
\<close>

definition stamp_origin_id :: "(string \<Rightarrow> string) \<Rightarrow> heap \<Rightarrow> pyval \<Rightarrow> pyval \<Rightarrow> pyerr + heap" where
  "stamp_origin_id sha1 h origin_container meta_dict =
     and_then (py_get h origin_container ''id'')
       (\<lambda>i. case i of
               PStr s \<Rightarrow>
                 (let (export, h1) = alloc h (ODict [(''origin_id'', PStr (hash_string sha1 s))]) in
                  and_then (py_getitem h1 meta_dict ''info'')
                    (\<lambda>info. py_setitem h1 info ''export'' export))
             | _ \<Rightarrow> Inl AttributeError)"

text \<open>
  Lines 171 to 173: the fields of \<^verbatim>\<open>meta_wl\<close> that are in the type's table, truthy on
  the origin and not yet a key of \<^verbatim>\<open>meta_dict\<close>. \<^verbatim>\<open>item in meta_whitelist\<close> raises when
  the table has no entry for the type (\<^verbatim>\<open>meta_whitelist\<close> is \<^verbatim>\<open>None\<close>).
\<close>

fun copy_fields :: "heap \<Rightarrow> pyval \<Rightarrow> string list option \<Rightarrow> pyval \<Rightarrow> pyval list \<Rightarrow> pyerr + heap" where
  "copy_fields h origin_container meta_whitelist meta_dict [] = Inr h"
| "copy_fields h origin_container meta_whitelist meta_dict (item # items) =
     (case meta_whitelist of
        None \<Rightarrow> Inl TypeError
      | Some allowed \<Rightarrow>
          (case item of
             PStr k \<Rightarrow>
               if k \<in> set allowed then
                 and_then (py_get h origin_container k)
                   (\<lambda>v. case as_dict h meta_dict of
                           None \<Rightarrow> Inl AttributeError
                         | Some kvs \<Rightarrow>
                             if truthy h v \<and> k \<notin> set (map fst kvs) then
                               and_then (py_setitem h meta_dict k v)
                                 (\<lambda>h'. copy_fields h' origin_container meta_whitelist meta_dict items)
                             else copy_fields h origin_container meta_whitelist meta_dict items)
               else copy_fields h origin_container meta_whitelist meta_dict items
           | _ \<Rightarrow> copy_fields h origin_container meta_whitelist meta_dict items))"

text \<open>
  \<^verbatim>\<open>create_metadata_dict\<close> for an origin given as a dictionary (an SDK container is
  first turned into a new dictionary by \<^verbatim>\<open>to_dict\<close>, see \<open>container_metadata\<close> below).
  The result is the address of the new \<^verbatim>\<open>meta_dict\<close> and the store after the call.
\<close>

definition create_metadata_dict ::
    "(string \<Rightarrow> string) \<Rightarrow> heap \<Rightarrow> pyval \<Rightarrow> string \<Rightarrow> pyval \<Rightarrow> pyerr + (pyval \<times> heap)" where
  "create_metadata_dict sha1 h origin_container container_type container_config =
     and_then (py_get h origin_container ''id'')
       (\<lambda>i. if \<not> truthy h i then Inl ValueError
             else
               (let (meta_dict, h1) = alloc h (ODict []) in
                and_then (parse_whitelists h1 container_type container_config)
                  (\<lambda>(meta_wl, info_wl, h2).
                     and_then (build_info h2 origin_container meta_dict meta_wl info_wl)
                       (\<lambda>h3. and_then (stamp_origin_id sha1 h3 origin_container meta_dict)
                          (\<lambda>h4. case as_list h4 meta_wl of
                                   None \<Rightarrow> Inl TypeError
                                 | Some wl \<Rightarrow>
                                     and_then
                                       (copy_fields h4 origin_container
                                          (META_WHITELIST_DICT container_type) meta_dict wl)
                                       (\<lambda>h5. Inr (meta_dict, h5)))))))"


text \<open>
  A store is well formed when every address held by one of its objects is the address
  of an object: Python has no dangling reference.
\<close>

fun refs_of :: "pyobj \<Rightarrow> pyval list" where
  "refs_of (ODict kvs) = map snd kvs"
| "refs_of (OList vs) = vs"

fun ref_below :: "nat \<Rightarrow> pyval \<Rightarrow> bool" where
  "ref_below n (PRef a) = (a < n)"
| "ref_below n v = True"

definition heap_ok :: "heap \<Rightarrow> bool" where
  "heap_ok h = (\<forall>obj \<in> set h. \<forall>v \<in> set (refs_of obj). ref_below (length h) v)"

text \<open>
  A step keeps the dictionaries of the store when every dictionary object is still there
  afterwards, with the same content (new objects may be allocated, lists may grow).
\<close>

definition dicts_kept :: "heap \<Rightarrow> heap \<Rightarrow> bool" where
  "dicts_kept h h' = (length h \<le> length h' \<and> (\<forall>b kvs. obj_at h b = Some (ODict kvs) \<longrightarrow> obj_at h' b = Some (ODict kvs)))"

subsection \<open>A session snapshot and a configuration, as objects\<close>

text \<open>
  The origin is \<^verbatim>\<open>{'id': 's1', 'info': {'a': 1, 'export': 'old'}, 'age': 30, 'label': 'x', 'operator': ''}\<close>
  at address 0 (its info at address 1); the configuration is
  \<^verbatim>\<open>{'whitelist': {'metadata': ['age', 'label', 'operator'], 'info': 'All'}}\<close> at address 2.
\<close>

definition example_config_heap :: heap where
  "example_config_heap =
     [ODict [(''id'', PStr ''s1''), (''info'', PRef 1), (''age'', PInt 30), (''label'', PStr ''x''),
             (''operator'', PStr [])],
      ODict [(''a'', PInt 1), (''export'', PStr ''old'')],
      ODict [(''whitelist'', PRef 3)],
      ODict [(''metadata'', PRef 4), (''info'', PStr ''All'')],
      OList [PStr ''age'', PStr ''label'', PStr ''operator'']]"

definition example_sha1 :: "string \<Rightarrow> string" where
  "example_sha1 s = CHR ''#'' # s"

definition example_result_heap :: heap where
  "example_result_heap =
     [ODict [(''id'', PStr ''s1''), (''info'', PRef 1), (''age'', PInt 30), (''label'', PStr ''x''),
             (''operator'', PStr [])],
      ODict [(''a'', PInt 1), (''export'', PRef 9)],
      ODict [(''whitelist'', PRef 3)],
      ODict [(''metadata'', PRef 4), (''info'', PStr ''All'')],
      OList [PStr ''age'', PStr ''label'', PStr ''operator'', PStr ''info''],
      ODict [(''info'', PRef 1), (''age'', PInt 30)],
      OList [], OList [], ODict [],
      ODict [(''origin_id'', PStr ''#s1'')]]"

section \<open>Containers of the remote store\<close>

text \<open>
  What the remote store holds is data, not objects: JSON documents. The SDK turns a
  document into new Python objects when it hands out a container (\<open>load\<close>), and
  serialises the arguments of a request (\<open>dump\<close>). Serialisation follows references, so
  it is given fuel: the number of objects of the store bounds the depth of any structure
  without a cycle, and running out of fuel is the serialiser's error on a cycle.
\<close>

datatype json =
  JNull | JBool bool | JInt int | JStr string | JList "json list" | JDict "(string \<times> json) list"

fun load :: "json \<Rightarrow> heap \<Rightarrow> pyval \<times> heap"
  and load_list :: "json list \<Rightarrow> heap \<Rightarrow> pyval list \<times> heap"
  and load_items :: "(string \<times> json) list \<Rightarrow> heap \<Rightarrow> (string \<times> pyval) list \<times> heap" where
  "load JNull h = (PNone, h)"
| "load (JBool b) h = (PBool b, h)"
| "load (JInt i) h = (PInt i, h)"
| "load (JStr s) h = (PStr s, h)"
| "load (JList js) h = (let (vs, h') = load_list js h in alloc h' (OList vs))"
| "load (JDict kjs) h = (let (kvs, h') = load_items kjs h in alloc h' (ODict kvs))"
| "load_list [] h = ([], h)"
| "load_list (j # js) h = (let (v, h1) = load j h; (vs, h2) = load_list js h1 in (v # vs, h2))"
| "load_items [] h = ([], h)"
| "load_items ((k, j) # kjs) h =
     (let (v, h1) = load j h; (kvs, h2) = load_items kjs h1 in ((k, v) # kvs, h2))"

fun dump :: "nat \<Rightarrow> heap \<Rightarrow> pyval \<Rightarrow> json option" where
  "dump n h PNone = Some JNull"
| "dump n h (PBool b) = Some (JBool b)"
| "dump n h (PInt i) = Some (JInt i)"
| "dump n h (PStr s) = Some (JStr s)"
| "dump 0 h (PRef a) = None"
| "dump (Suc n) h (PRef a) =
     (case obj_at h a of
        None \<Rightarrow> None
      | Some (OList vs) \<Rightarrow> map_option JList (those (map (dump n h) vs))
      | Some (ODict kvs) \<Rightarrow>
          map_option JDict (those (map (\<lambda>(k, v). map_option (Pair k) (dump n h v)) kvs)))"

text \<open>
  The keyword arguments \<^verbatim>\<open>**meta_dict\<close> of a request, and the body of an update: the
  entries of the dictionary, each value serialised.
\<close>

definition dump_dict :: "heap \<Rightarrow> pyval \<Rightarrow> pyerr + (string \<times> json) list" where
  "dump_dict h x =
     (case as_dict h x of
        None \<Rightarrow> Inl TypeError
      | Some kvs \<Rightarrow>
          (case those (map (\<lambda>(k, v). map_option (Pair k) (dump (length h) h v)) kvs) of
             None \<Rightarrow> Inl ValueError
           | Some kjs \<Rightarrow> Inr kjs))"

fun json_path :: "json \<Rightarrow> string list \<Rightarrow> json option" where
  "json_path j [] = Some j"
| "json_path (JDict kvs) (k # ks) = (case map_of kvs k of None \<Rightarrow> None | Some v \<Rightarrow> json_path v ks)"
| "json_path j (k # ks) = None"

text \<open>
  A container of the hierarchy: its id, its type (\<^verbatim>\<open>project\<close>, \<^verbatim>\<open>subject\<close>,
  \<^verbatim>\<open>session\<close> or \<^verbatim>\<open>acquisition\<close>), the id of its parent, its attributes (label, code,
  info and the metadata fields) and its files. An attribute that is not set reads as
  \<^verbatim>\<open>None\<close>. The store is the list of all containers, oldest first; the origin and the
  destination hierarchy are both in it.
\<close>

record fw_file =
  file_name :: string
  file_type :: "string option"

record container =
  cid :: string
  ctype :: string
  parent_id :: string
  attrs :: "(string \<times> json) list"
  files :: "fw_file list"

type_synonym store = "container list"

definition attr :: "container \<Rightarrow> string \<Rightarrow> json" where
  "attr c k = (case map_of (attrs c) k of Some v \<Rightarrow> v | None \<Rightarrow> JNull)"

definition to_dict :: "container \<Rightarrow> json" where
  "to_dict c = JDict ((''id'', JStr (cid c)) # attrs c)"

text \<open>
  Modelled from the spec: the remote store collaborator (the \<^verbatim>\<open>flywheel\<close> SDK and its
  server are not under src/). Section 6 gives its operations: get-by-id, query-first-match
  on the children of a parent, add-child, update-metadata. \<^verbatim>\<open>reload\<close> is get-by-id. The
  store gives a new child an id no container has; an update merges the payload into the
  container's attributes and never deletes an attribute (section 4.2), the entries of
  \<^verbatim>\<open>info\<close> likewise.
\<close>

definition get_container :: "store \<Rightarrow> string \<Rightarrow> pyerr + container" where
  "get_container st i = (case find (\<lambda>c. cid c = i) st of Some c \<Rightarrow> Inr c | None \<Rightarrow> Inl ApiException)"

definition children :: "store \<Rightarrow> string \<Rightarrow> string \<Rightarrow> container list" where
  "children st t p = filter (\<lambda>c. ctype c = t \<and> parent_id c = p) st"

definition fresh_id :: "store \<Rightarrow> string" where
  "fresh_id st = replicate (Suc (foldr (\<lambda>c n. max (length (cid c)) n) st 0)) (CHR ''0'')"

definition add_child :: "store \<Rightarrow> string \<Rightarrow> string \<Rightarrow> (string \<times> json) list \<Rightarrow> container \<times> store" where
  "add_child st t p kvs =
     (let c = \<lparr>cid = fresh_id st, ctype = t, parent_id = p, attrs = kvs, files = []\<rparr>
      in (c, st @ [c]))"

definition merge_info :: "json \<Rightarrow> json \<Rightarrow> json" where
  "merge_info old new =
     (case old of
        JDict os \<Rightarrow> (case new of JDict ns \<Rightarrow> JDict (AList.merge os ns) | _ \<Rightarrow> new)
      | _ \<Rightarrow> new)"

definition merge_fields :: "(string \<times> json) list \<Rightarrow> (string \<times> json) list \<Rightarrow> (string \<times> json) list" where
  "merge_fields fs payload =
     AList.merge fs
       (map (\<lambda>(k, v). (k, if k = ''info''
                           then merge_info (case map_of fs ''info'' of Some i \<Rightarrow> i | None \<Rightarrow> JNull) v
                           else v)) payload)"

definition update_container :: "store \<Rightarrow> string \<Rightarrow> (string \<times> json) list \<Rightarrow> store" where
  "update_container st i payload =
     map (\<lambda>c. if cid c = i then c\<lparr>attrs := merge_fields (attrs c) payload\<rparr> else c) st"

text \<open>
  What the code takes from outside the repository: \<^verbatim>\<open>hashlib\<close>'s digest, the query
  engine of the remote store (whether a container satisfies a filter expression, given
  as text) and Python's \<^verbatim>\<open>str\<close> of a list or dictionary.
\<close>

record env =
  hexdigest :: "string \<Rightarrow> string"
  engine :: "string \<Rightarrow> container \<Rightarrow> bool"
  py_repr :: "heap \<Rightarrow> nat \<Rightarrow> string"

definition find_first :: "env \<Rightarrow> container list \<Rightarrow> string \<Rightarrow> container option" where
  "find_first env cs query = find (engine env query) cs"

section \<open>The container matcher\<close>

fun show_nat :: "nat \<Rightarrow> string" where
  "show_nat n =
     (if n < 10 then [''0123456789'' ! n] else show_nat (n div 10) @ [''0123456789'' ! (n mod 10)])"

text \<open>\<^verbatim>\<open>str(x)\<close>.\<close>

definition py_str :: "env \<Rightarrow> heap \<Rightarrow> pyval \<Rightarrow> string" where
  "py_str env h x =
     (case x of
        PStr s \<Rightarrow> s
      | PNone \<Rightarrow> ''None''
      | PBool b \<Rightarrow> (if b then ''True'' else ''False'')
      | PInt i \<Rightarrow> (if i < 0 then CHR ''-'' # show_nat (nat (- i)) else show_nat (nat i))
      | PRef a \<Rightarrow> py_repr env h a)"

text \<open>
  \<^verbatim>\<open>re.match(r'^[\d]+[\.]?[\d]*$', s)\<close>: digits, then at most one point, then digits,
  up to the end of the string or to a newline that ends it (\<^verbatim>\<open>$\<close> matches there too).
  Digits are the ASCII digits.
\<close>

definition is_digit :: "char \<Rightarrow> bool" where
  "is_digit c = (c \<in> set ''0123456789'')"

definition numeric_match :: "string \<Rightarrow> bool" where
  "numeric_match s =
     (let body = (if s \<noteq> [] \<and> last s = CHR 0x0A then butlast s else s);
          rest = dropWhile is_digit body;
          tail = (case rest of [] \<Rightarrow> [] | c # cs \<Rightarrow> if c = CHR ''.'' then cs else rest)
      in takeWhile is_digit body \<noteq> [] \<and> list_all is_digit tail)"

definition dquote :: char where
  "dquote = CHR 0x22"

definition quote_numeric_string :: "env \<Rightarrow> heap \<Rightarrow> pyval \<Rightarrow> string" where
  "quote_numeric_string env h input_str =
     (let s = py_str env h input_str in if numeric_match s then [dquote] @ s @ [dquote] else s)"

text \<open>\<^verbatim>\<open>x.get(k, d)\<close>.\<close>

definition py_get_default :: "heap \<Rightarrow> pyval \<Rightarrow> string \<Rightarrow> pyval \<Rightarrow> pyerr + pyval" where
  "py_get_default h x k d =
     (case as_dict h x of
        Some kvs \<Rightarrow> Inr (case map_of kvs k of Some v \<Rightarrow> v | None \<Rightarrow> d)
      | None \<Rightarrow> Inl AttributeError)"

text \<open>\<^verbatim>\<open>if not config: config = dict()\<close>.\<close>

definition config_or_empty :: "heap \<Rightarrow> pyval \<Rightarrow> pyval \<times> heap" where
  "config_or_empty h config = (if truthy h config then (config, h) else alloc h (ODict []))"

text \<open>
  Lines 125 to 129 and the rest of \<^verbatim>\<open>create_metadata_dict\<close>, for an origin that is a
  container of the SDK: it is reloaded (twice), and \<^verbatim>\<open>to_dict\<close> gives a new dictionary.
\<close>

definition container_metadata ::
    "env \<Rightarrow> heap \<Rightarrow> store \<Rightarrow> container \<Rightarrow> string \<Rightarrow> pyval \<Rightarrow> pyerr + (pyval \<times> heap)" where
  "container_metadata env h st origin_container container_type container_config =
     and_then (get_container st (cid origin_container))
       (\<lambda>c1. and_then (get_container st (cid c1))
          (\<lambda>c2. let (d, h1) = load (to_dict c2) h
                in create_metadata_dict (hexdigest env) h1 d container_type container_config))"

text \<open>The filter of lines 237 to 240 and 275 to 278.\<close>

definition origin_query :: "env \<Rightarrow> string \<Rightarrow> string \<Rightarrow> string" where
  "origin_query env quoted_label origin_id =
     ''label='' @ quoted_label @ '',info.export.origin_id='' @ [dquote]
       @ hash_string (hexdigest env) origin_id @ [dquote]"

text \<open>
  \<^verbatim>\<open>parent.add_session(label=new_label, **meta_dict)\<close> and its siblings: a keyword given
  twice is a \<^verbatim>\<open>TypeError\<close>.
\<close>

definition add_with_metadata ::
    "heap \<Rightarrow> store \<Rightarrow> string \<Rightarrow> string \<Rightarrow> (string \<times> pyval) list \<Rightarrow> pyval \<Rightarrow> pyerr + (container \<times> store)" where
  "add_with_metadata h st t p named meta_dict =
     and_then (dump_dict h meta_dict)
       (\<lambda>payload.
          if \<exists>k \<in> set (map fst named). k \<in> set (map fst payload) then Inl TypeError
          else
            (case those (map (\<lambda>(k, v). map_option (Pair k) (dump (length h) h v)) named) of
               None \<Rightarrow> Inl ValueError
             | Some kjs \<Rightarrow> Inr (add_child st t p (kjs @ payload))))"

text \<open>\<^verbatim>\<open>container.update(meta_dict)\<close>.\<close>

definition update_with_metadata :: "heap \<Rightarrow> store \<Rightarrow> container \<Rightarrow> pyval \<Rightarrow> pyerr + store" where
  "update_with_metadata h st c meta_dict =
     and_then (dump_dict h meta_dict) (\<lambda>payload. Inr (update_container st (cid c) payload))"

text \<open>
  \<^verbatim>\<open>find_or_create_subject\<close> (lines 178 to 215). The found subject is returned as it
  was read before the update: the result of the last \<^verbatim>\<open>reload\<close> is dropped.
\<close>

definition find_or_create_subject ::
    "env \<Rightarrow> heap \<Rightarrow> store \<Rightarrow> string \<Rightarrow> string \<Rightarrow> pyval \<Rightarrow> pyerr + (container \<times> heap \<times> store)" where
  "find_or_create_subject env h st origin_subject dest_proj subject_config =
     and_then (get_container st origin_subject)
       (\<lambda>origin. and_then (get_container st dest_proj)
          (\<lambda>dest.
             let (config, h1) = config_or_empty h subject_config;
                 (code, h2) = load (attr origin ''code'') h1
             in and_then (py_get_default h2 config ''code'' code)
                  (\<lambda>new_code.
                     let query = ''code='' @ quote_numeric_string env h2 new_code;
                         dest_subject = find_first env (children st ''subject'' (cid dest)) query
                     in and_then (container_metadata env h2 st origin ''subject'' config)
                          (\<lambda>(meta_dict, h3).
                             case dest_subject of
                               None \<Rightarrow>
                                 and_then
                                   (add_with_metadata h3 st ''subject'' (cid dest)
                                      [(''code'', new_code), (''label'', new_code)] meta_dict)
                                   (\<lambda>(new_subject, st').
                                      and_then (get_container st' (cid new_subject))
                                        (\<lambda>c. Inr (c, h3, st')))
                             | Some found \<Rightarrow>
                                 and_then (update_with_metadata h3 st found meta_dict)
                                   (\<lambda>st'. and_then (get_container st' (cid found))
                                      (\<lambda>c. Inr (found, h3, st')))))))"

text \<open>\<^verbatim>\<open>find_or_create_subject_session\<close> (lines 218 to 252).\<close>

definition find_or_create_subject_session ::
    "env \<Rightarrow> heap \<Rightarrow> store \<Rightarrow> string \<Rightarrow> string \<Rightarrow> pyval \<Rightarrow> pyerr + (container \<times> heap \<times> store)" where
  "find_or_create_subject_session env h st origin_session dest_subject session_config =
     and_then (get_container st origin_session)
       (\<lambda>origin. and_then (get_container st dest_subject)
          (\<lambda>dest.
             let (config, h1) = config_or_empty h session_config;
                 (label, h2) = load (attr origin ''label'') h1
             in and_then (py_get_default h2 config ''label'' label)
                  (\<lambda>new_label.
                     let query = origin_query env (quote_numeric_string env h2 new_label) (cid origin);
                         dest_session = find_first env (children st ''session'' (cid dest)) query
                     in and_then (container_metadata env h2 st origin ''session'' config)
                          (\<lambda>(meta_dict, h3).
                             case dest_session of
                               None \<Rightarrow>
                                 and_then
                                   (add_with_metadata h3 st ''session'' (cid dest)
                                      [(''label'', new_label)] meta_dict)
                                   (\<lambda>(new_session, st'). Inr (new_session, h3, st'))
                             | Some found \<Rightarrow>
                                 and_then (update_with_metadata h3 st found meta_dict)
                                   (\<lambda>st'. and_then (get_container st' (cid found))
                                      (\<lambda>c. Inr (c, h3, st')))))))"

text \<open>
  \<^verbatim>\<open>find_or_create_session_acquisition\<close> (lines 255 to 291). The configuration is read
  for the whitelists only: the label of the query and of the new acquisition is the
  origin's.
\<close>

definition find_or_create_session_acquisition ::
    "env \<Rightarrow> heap \<Rightarrow> store \<Rightarrow> string \<Rightarrow> string \<Rightarrow> pyval \<Rightarrow> pyerr + (container \<times> heap \<times> store)" where
  "find_or_create_session_acquisition env h st origin_acquisition dest_session acquisition_config =
     and_then (get_container st origin_acquisition)
       (\<lambda>origin. and_then (get_container st dest_session)
          (\<lambda>dest.
             let (config, h1) = config_or_empty h acquisition_config;
                 (label, h2) = load (attr origin ''label'') h1;
                 query = origin_query env (quote_numeric_string env h2 label) (cid origin);
                 dest_acquisition = find_first env (children st ''acquisition'' (cid dest)) query
             in and_then (container_metadata env h2 st origin ''acquisition'' config)
                  (\<lambda>(meta_dict, h3).
                     case dest_acquisition of
                       None \<Rightarrow>
                         and_then
                           (add_with_metadata h3 st ''acquisition'' (cid dest)
                              [(''label'', label)] meta_dict)
                           (\<lambda>(new_acquisition, st'). Inr (new_acquisition, h3, st'))
                     | Some found \<Rightarrow>
                         and_then (update_with_metadata h3 st found meta_dict)
                           (\<lambda>st'. and_then (get_container st' (cid found))
                              (\<lambda>c. Inr (found, h3, st'))))))"

section \<open>The file export initializer\<close>

type_synonym status_dict = "(string \<times> json) list"

text \<open>
  A \<^verbatim>\<open>FileExporter\<close> as \<^verbatim>\<open>initialize_container_file_export\<close> constructs it: the
  keyword arguments of the constructor call (lines 316 to 323).
\<close>

record file_exporter =
  fe_origin_parent :: container
  fe_origin_filename :: string
  fe_dest_parent :: container
  fe_filename :: "string option"
  fe_overwrite :: bool

text \<open>
  Modelled from the spec: the class \<^verbatim>\<open>FileExporter\<close> (\<^verbatim>\<open>deid_export/file_exporter.py\<close>)
  is not under src/. Section 4.3 gives a job's destination filename (the remapped name
  if there is one, else the origin's name), section 6 the keys of its status snapshot; a
  new job is pending.
\<close>

definition export_filename :: "file_exporter \<Rightarrow> string" where
  "export_filename fe = (case fe_filename fe of Some f \<Rightarrow> f | None \<Rightarrow> fe_origin_filename fe)"

definition get_status_dict :: "file_exporter \<Rightarrow> status_dict" where
  "get_status_dict fe =
     [(''origin_filename'', JStr (fe_origin_filename fe)),
      (''origin_parent'', JStr (cid (fe_origin_parent fe))),
      (''origin_parent_type'', JStr (ctype (fe_origin_parent fe))),
      (''export_filename'', JStr (export_filename fe)),
      (''export_file_id'', JNull),
      (''export_parent'', JStr (cid (fe_dest_parent fe))),
      (''state'', JStr ''pending''),
      (''errors'', JNull)]"

text \<open>
  \<^verbatim>\<open>container_file.type in filetype_list\<close>, the type being a string or \<^verbatim>\<open>None\<close>:
  membership in a list, key of a dictionary, substring of a string; anything else is
  not iterable. The function reads the list and writes nothing, so the list is taken by
  value.
\<close>

definition type_in :: "string option \<Rightarrow> json \<Rightarrow> pyerr + bool" where
  "type_in t x =
     (case x of
        JList js \<Rightarrow> Inr ((case t of Some s \<Rightarrow> JStr s | None \<Rightarrow> JNull) \<in> set js)
      | JDict kvs \<Rightarrow> Inr (case t of Some s \<Rightarrow> s \<in> set (map fst kvs) | None \<Rightarrow> False)
      | JStr u \<Rightarrow> (case t of Some s \<Rightarrow> Inr (sublist s u) | None \<Rightarrow> Inl TypeError)
      | _ \<Rightarrow> Inl TypeError)"

fun export_file_loop ::
    "container \<Rightarrow> container \<Rightarrow> (string \<Rightarrow> string option) \<Rightarrow> json \<Rightarrow> bool \<Rightarrow> fw_file list
       \<Rightarrow> pyerr + file_exporter list" where
  "export_file_loop origin_container dest_container filename_dict filetype_list overwrite [] = Inr []"
| "export_file_loop origin_container dest_container filename_dict filetype_list overwrite
     (container_file # rest) =
     and_then (type_in (file_type container_file) filetype_list)
       (\<lambda>listed.
          and_then
            (export_file_loop origin_container dest_container filename_dict filetype_list overwrite rest)
            (\<lambda>file_exporter_list.
               Inr (if listed then
                      \<lparr>fe_origin_parent = origin_container,
                        fe_origin_filename = file_name container_file,
                        fe_dest_parent = dest_container,
                        fe_filename = filename_dict (file_name container_file),
                        fe_overwrite = overwrite\<rparr> # file_exporter_list
                    else file_exporter_list)))"

text \<open>\<^verbatim>\<open>initialize_container_file_export\<close> (lines 294 to 325).\<close>

definition initialize_container_file_export ::
    "container \<Rightarrow> container \<Rightarrow> (string \<Rightarrow> string option) \<Rightarrow> json \<Rightarrow> bool
       \<Rightarrow> pyerr + file_exporter list" where
  "initialize_container_file_export origin_container dest_container filename_dict filetype_list overwrite =
     export_file_loop origin_container dest_container filename_dict filetype_list overwrite
       (files origin_container)"

section \<open>The export orchestrator: \<^verbatim>\<open>SessionExporter\<close>\<close>

text \<open>
  The attributes of a \<^verbatim>\<open>SessionExporter\<close>. Containers are held as the snapshots the
  SDK returned. The configuration is held as Python objects (the matchers write to
  them), the file types as a value: a template is a tree, so no other name is bound to
  the list of file types and nothing writes to it. The methods change the remote store,
  and a method that raises leaves the store as it is at that moment: a result is the
  exception or the value, and the store.
\<close>

record session_exporter =
  se_export_config :: pyval
  se_origin_project :: container
  se_dest_proj :: container
  se_origin :: container
  se_file_types :: json
  se_files :: "file_exporter list"
  se_dest_subject :: "container option"
  se_dest :: "container option"

definition bind_store ::
    "(pyerr + 'a) \<times> store \<Rightarrow> ('a \<Rightarrow> store \<Rightarrow> (pyerr + 'b) \<times> store) \<Rightarrow> (pyerr + 'b) \<times> store" where
  "bind_store m f = (case m of (Inl e, st) \<Rightarrow> (Inl e, st) | (Inr x, st) \<Rightarrow> f x st)"

text \<open>A matcher writes to the store with its last request only.\<close>

definition matched :: "store \<Rightarrow> pyerr + (container \<times> heap \<times> store) \<Rightarrow> (pyerr + (container \<times> heap)) \<times> store" where
  "matched st m = (case m of Inl e \<Rightarrow> (Inl e, st) | Inr (c, h, st') \<Rightarrow> (Inr (c, h), st'))"

text \<open>\<^verbatim>\<open>fw_client.get_project(session.project)\<close>: the project of the session's subject.\<close>

definition get_project_of :: "store \<Rightarrow> container \<Rightarrow> pyerr + container" where
  "get_project_of st session =
     and_then (get_container st (parent_id session)) (\<lambda>subject. get_container st (parent_id subject))"

definition session_exporter_init ::
    "heap \<Rightarrow> store \<Rightarrow> container \<Rightarrow> string \<Rightarrow> json \<Rightarrow> string option \<Rightarrow> pyerr + (session_exporter \<times> heap)" where
  "session_exporter_init h st origin_session dest_proj_id export_config dest_container_id =
     (let config_items = (case export_config of JDict kvs \<Rightarrow> kvs | _ \<Rightarrow> []);
          (config, h1) = load (JDict config_items) h
      in and_then (get_project_of st origin_session)
           (\<lambda>origin_project. and_then (get_container st dest_proj_id)
              (\<lambda>dest_proj. and_then (get_container st (cid origin_session))
                 (\<lambda>origin.
                    let se = \<lparr>se_export_config = config, se_origin_project = origin_project,
                               se_dest_proj = dest_proj, se_origin = origin,
                               se_file_types =
                                 (case map_of config_items ''file_types'' of
                                    Some v \<Rightarrow> v | None \<Rightarrow> JList [JStr ''dicom'']),
                               se_files = [], se_dest_subject = None, se_dest = None\<rparr>
                    in case dest_container_id of
                         None \<Rightarrow> Inr (se, h1)
                       | Some d \<Rightarrow>
                           if d = [] then Inr (se, h1)
                           else
                             and_then (get_container st d)
                               (\<lambda>dest. and_then (get_container st (parent_id dest))
                                  (\<lambda>dest_subject.
                                     Inr (se\<lparr>se_dest_subject := Some dest_subject,
                                             se_dest := Some dest\<rparr>, h1)))))))"

definition find_or_create_dest_subject ::
    "env \<Rightarrow> heap \<Rightarrow> session_exporter \<Rightarrow> store \<Rightarrow> (pyerr + (session_exporter \<times> heap)) \<times> store" where
  "find_or_create_dest_subject env h se st =
     (if se_dest_subject se \<noteq> None then (Inr (se, h), st)
      else
        bind_store (py_get h (se_export_config se) ''subject'', st)
          (\<lambda>subject_config st.
             bind_store
               (matched st
                  (find_or_create_subject env h st (parent_id (se_origin se)) (cid (se_dest_proj se))
                     subject_config))
               (\<lambda>(dest_subject, h') st'. (Inr (se\<lparr>se_dest_subject := Some dest_subject\<rparr>, h'), st'))))"

definition find_or_create_dest ::
    "env \<Rightarrow> heap \<Rightarrow> session_exporter \<Rightarrow> store \<Rightarrow> (pyerr + (session_exporter \<times> heap)) \<times> store" where
  "find_or_create_dest env h se st =
     (if se_dest se \<noteq> None then (Inr (se, h), st)
      else
        bind_store
          (if se_dest_subject se \<noteq> None then (Inr (se, h), st) else find_or_create_dest_subject env h se st)
          (\<lambda>(se1, h1) st1.
             case se_dest_subject se1 of
               None \<Rightarrow> (Inl AttributeError, st1)
             | Some dest_subject \<Rightarrow>
                 bind_store (py_get h1 (se_export_config se1) ''session'', st1)
                   (\<lambda>session_config st1.
                      bind_store
                        (matched st1
                           (find_or_create_subject_session env h1 st1 (cid (se_origin se1))
                              (cid dest_subject) session_config))
                        (\<lambda>(dest, h2) st2. (Inr (se1\<lparr>se_dest := Some dest\<rparr>, h2), st2)))))"

text \<open>Lines 461 to 476: the acquisitions of the origin session, in the order listed.\<close>

fun initialize_acquisition_files ::
    "env \<Rightarrow> (string \<Rightarrow> string option) \<Rightarrow> container \<Rightarrow> container list \<Rightarrow> heap \<Rightarrow> session_exporter \<Rightarrow> store
       \<Rightarrow> (pyerr + (session_exporter \<times> heap)) \<times> store" where
  "initialize_acquisition_files env filename_dict dest [] h se st = (Inr (se, h), st)"
| "initialize_acquisition_files env filename_dict dest (acquisition # rest) h se st =
     bind_store (get_container st (cid acquisition), st)
       (\<lambda>origin_acq st.
          bind_store (py_get h (se_export_config se) ''acquisition'', st)
            (\<lambda>acquisition_config st.
               bind_store
                 (matched st
                    (find_or_create_session_acquisition env h st (cid origin_acq) (cid dest)
                       acquisition_config))
                 (\<lambda>(dest_acq, h1) st1.
                    bind_store
                      (initialize_container_file_export origin_acq dest_acq filename_dict
                         (se_file_types se) False, st1)
                      (\<lambda>tmp_acq_file_list st1.
                         initialize_acquisition_files env filename_dict dest rest h1
                           (se\<lparr>se_files := se_files se @ tmp_acq_file_list\<rparr>) st1))))"

text \<open>
  \<^verbatim>\<open>initialize_files\<close> (lines 420 to 478): the destination session is found or created,
  then the jobs of the project's files (if asked for), of the subject's files (if asked
  for), of the session's files and of every acquisition's files are appended, in this
  order. The filename dictionary is empty unless a dictionary was passed.
\<close>

definition initialize_files ::
    "env \<Rightarrow> bool \<Rightarrow> bool \<Rightarrow> (string \<Rightarrow> string option) option \<Rightarrow> heap \<Rightarrow> session_exporter \<Rightarrow> store
       \<Rightarrow> (pyerr + (session_exporter \<times> heap)) \<times> store" where
  "initialize_files env subject_files project_files filename_dict_arg h se st =
     (let filename_dict = (case filename_dict_arg of Some d \<Rightarrow> d | None \<Rightarrow> (\<lambda>n. None)) in
      bind_store (find_or_create_dest env h se st)
        (\<lambda>(se1, h1) st1.
           case se_dest se1 of
             None \<Rightarrow> (Inl AttributeError, st1)
           | Some dest \<Rightarrow>
               bind_store
                 (if project_files then
                    and_then (get_container st1 (cid (se_origin_project se1)))
                      (\<lambda>origin_project. and_then (get_container st1 (cid (se_dest_proj se1)))
                         (\<lambda>dest_proj.
                            initialize_container_file_export origin_project dest_proj filename_dict
                              (se_file_types se1) False))
                  else Inr [], st1)
                 (\<lambda>proj_file_list st1.
                    bind_store
                      (if subject_files then
                         and_then (get_container st1 (parent_id (se_origin se1)))
                           (\<lambda>origin_subject. and_then (get_container st1 (parent_id dest))
                              (\<lambda>dest_subject.
                                 initialize_container_file_export origin_subject dest_subject
                                   filename_dict (se_file_types se1) False))
                       else Inr [], st1)
                      (\<lambda>subj_file_list st1.
                         bind_store
                           (and_then (get_container st1 (cid dest))
                              (\<lambda>dest_now.
                                 initialize_container_file_export (se_origin se1) dest_now
                                   filename_dict (se_file_types se1) False), st1)
                           (\<lambda>sess_file_list st1.
                              bind_store (get_container st1 (cid (se_origin se1)), st1)
                                (\<lambda>origin st1.
                                   initialize_acquisition_files env filename_dict dest
                                     (children st1 ''acquisition'' (cid origin)) h1
                                     (se1\<lparr>se_origin := origin,
                                          se_files := se_files se1 @ proj_file_list @ subj_file_list
                                                        @ sess_file_list\<rparr>) st1))))))"

section \<open>The parallel executor and the session export\<close>

text \<open>
  What the driver takes from outside the repository, beside \<open>env\<close>: the parser of a
  template file (its result, or the exception it raises), the template collaborator
  \<^verbatim>\<open>deid_template\<close> (\<^verbatim>\<open>validate\<close> gives the table of subject codes, or something that
  is not a table; \<^verbatim>\<open>get_updated_template\<close> gives the path of the subject's template or
  raises with a message), the transfer of one file by its \<^verbatim>\<open>FileExporter\<close> (the final
  state, the error text and the id of the exported file) and the names of the temporary
  directories, in the order they are made.
\<close>

type_synonym code_table = "(string \<times> string) list"

record world =
  base :: env
  parse_template :: "string \<Rightarrow> pyerr + json"
  validate :: "string \<Rightarrow> string \<Rightarrow> pyerr + code_table option"
  get_updated_template :: "code_table \<Rightarrow> json \<Rightarrow> json \<Rightarrow> string \<Rightarrow> string + string"
  transfer :: "status_dict \<Rightarrow> string \<Rightarrow> bool \<Rightarrow> string \<times> json \<times> json"
  mkdtemp :: "nat \<Rightarrow> string"

text \<open>
  The machine the export runs on: the remote store, the report files written so far
  (path and rows; the header is written with the first rows), the temporary directories
  already removed, and the calls of \<^verbatim>\<open>_export_session\<close> made so far, kept to state what
  a run did.
\<close>

record export_call =
  call_session_id :: string
  call_template_path :: string
  call_project_files :: bool
  call_subject_files :: bool
  call_error_msg :: "string option"

record machine =
  m_store :: store
  m_csv :: "(string \<times> status_dict list) list"
  m_removed :: "string list"
  m_calls :: "export_call list"

text \<open>
  \<^verbatim>\<open>os.path.splitext\<close> (POSIX): the extension starts at the last point of the last
  component, unless only points come before it.
\<close>

definition splitext_ext :: "string \<Rightarrow> string" where
  "splitext_ext p =
     (let name = rev (takeWhile (\<lambda>c. c \<noteq> CHR ''/'') (rev p));
          ext = rev (takeWhile (\<lambda>c. c \<noteq> CHR ''.'') (rev name));
          stem = take (length name - length ext - 1) name
      in if CHR ''.'' \<notin> set name \<or> (\<forall>c \<in> set stem. c = CHR ''.'') then [] else CHR ''.'' # ext)"

definition basename :: "string \<Rightarrow> string" where
  "basename p = rev (takeWhile (\<lambda>c. c \<noteq> CHR ''/'') (rev p))"

text \<open>
  \<^verbatim>\<open>load_template_file\<close> (lines 46 to 72). The \<^verbatim>\<open>return\<close> is inside the \<^verbatim>\<open>try\<close>:
  a path with another extension gives \<^verbatim>\<open>None\<close>; a \<^verbatim>\<open>ValueError\<close> of the parser is
  logged and raised again as a \<^verbatim>\<open>ValueError\<close>, any other exception passes through. A
  file of a directory that was removed cannot be opened.
\<close>

definition load_template_file :: "world \<Rightarrow> string list \<Rightarrow> string \<Rightarrow> pyerr + json" where
  "load_template_file w removed template_file_path =
     (let ext = splitext_ext (lower template_file_path) in
      if ext = ''.json'' \<or> ext \<in> {''.yml'', ''.yaml''} then
        (if \<exists>d \<in> set removed. prefix (d @ ''/'') template_file_path then Inl OSError
         else parse_template w template_file_path)
      else Inr JNull)"

text \<open>
  The function \<^verbatim>\<open>local_file_export\<close> (lines 328 to 357), run for every job by
  \<^verbatim>\<open>SessionExporter.local_file_export\<close>; the results come back in the order of the jobs.
  Modelled from the spec: what the worker's \<^verbatim>\<open>FileExporter\<close> does is not under src/;
  by section 4.5 it records the final state and the error text in the job's status and
  does not raise.
\<close>

definition local_file_export :: "world \<Rightarrow> status_dict \<Rightarrow> string \<Rightarrow> bool \<Rightarrow> status_dict" where
  "local_file_export w file_exporter_dict template_path overwrite =
     (case transfer w file_exporter_dict template_path overwrite of
        (state, errors, file_id) \<Rightarrow>
          AList.update ''export_file_id'' file_id
            (AList.update ''errors'' errors
               (AList.update ''state'' (JStr state) file_exporter_dict)))"

definition exporter_local_file_export :: "world \<Rightarrow> session_exporter \<Rightarrow> string \<Rightarrow> bool \<Rightarrow> status_dict list" where
  "exporter_local_file_export w se template_path overwrite =
     map (\<lambda>file_exporter. local_file_export w (get_status_dict file_exporter) template_path overwrite)
       (se_files se)"

text \<open>\<^verbatim>\<open>df.to_csv(path, index=False)\<close> and \<^verbatim>\<open>df.to_csv(path, mode='a', header=False, index=False)\<close>.\<close>

definition write_csv :: "machine \<Rightarrow> string \<Rightarrow> status_dict list \<Rightarrow> machine" where
  "write_csv m path rows = m\<lparr>m_csv := AList.update path rows (m_csv m)\<rparr>"

definition append_csv :: "machine \<Rightarrow> string \<Rightarrow> status_dict list \<Rightarrow> machine" where
  "append_csv m path rows =
     m\<lparr>m_csv := AList.update path ((case map_of (m_csv m) path of Some old \<Rightarrow> old | None \<Rightarrow> []) @ rows)
                  (m_csv m)\<rparr>"

text \<open>
  \<^verbatim>\<open>export_session\<close> (lines 503 to 536). The export configuration of the template
  becomes new objects of a store of its own; the result is the table of the jobs' final
  status, or \<^verbatim>\<open>None\<close> when there was no job.
\<close>

definition export_session ::
    "world \<Rightarrow> machine \<Rightarrow> string \<Rightarrow> string \<Rightarrow> string \<Rightarrow> bool \<Rightarrow> bool \<Rightarrow> string option \<Rightarrow> bool
       \<Rightarrow> (pyerr + status_dict list option) \<times> machine" where
  "export_session w m origin_session_id dest_proj_id template_path subject_files project_files
     csv_output_path overwrite =
     (case load_template_file w (m_removed m) template_path of
        Inl e \<Rightarrow> (Inl e, m)
      | Inr template \<Rightarrow>
          (case (case template of
                   JDict kvs \<Rightarrow> Inr (case map_of kvs ''export'' of Some v \<Rightarrow> v | None \<Rightarrow> JDict [])
                 | _ \<Rightarrow> Inl AttributeError) of
             Inl e \<Rightarrow> (Inl e, m)
           | Inr export_config \<Rightarrow>
               (case and_then (get_container (m_store m) origin_session_id)
                       (\<lambda>origin_session.
                          session_exporter_init [] (m_store m) origin_session dest_proj_id
                            export_config None) of
                  Inl e \<Rightarrow> (Inl e, m)
                | Inr (se, h) \<Rightarrow>
                    (case initialize_files (base w) subject_files project_files None h se (m_store m) of
                       (Inl e, st) \<Rightarrow> (Inl e, m\<lparr>m_store := st\<rparr>)
                     | (Inr (se', h'), st) \<Rightarrow>
                         (let session_export_df = exporter_local_file_export w se' template_path overwrite;
                              m1 = m\<lparr>m_store := st\<rparr>
                          in if length session_export_df \<ge> 1 then
                               (Inr (Some session_export_df),
                                (case csv_output_path of
                                   None \<Rightarrow> m1
                                 | Some path \<Rightarrow>
                                     if path = [] then m1 else write_csv m1 path session_export_df))
                             else (Inr None, m1))))))"

section \<open>The report aggregator and the export driver\<close>

text \<open>
  A table (\<^verbatim>\<open>pd.DataFrame\<close>) made from a list of status dictionaries is the list of its
  rows. \<^verbatim>\<open>session_df['state'].value_counts().get('error', 0)\<close> subscripts the table
  first: \<^verbatim>\<open>None\<close> has no subscript, and a table without a \<^verbatim>\<open>state\<close> column (the
  table of no row has no column) has no such key.
\<close>

definition count_errors :: "status_dict list \<Rightarrow> nat" where
  "count_errors rows = length (filter (\<lambda>r. map_of r ''state'' = Some (JStr ''error'')) rows)"

definition state_error_count :: "status_dict list option \<Rightarrow> pyerr + nat" where
  "state_error_count session_df =
     (case session_df of
        None \<Rightarrow> Inl TypeError
      | Some rows \<Rightarrow>
          if \<exists>r \<in> set rows. ''state'' \<in> set (map fst r) then Inr (count_errors rows)
          else Inl KeyError)"

text \<open>\<^verbatim>\<open>_append_file_status_dicts\<close> (lines 545 to 558).\<close>

definition file_status_dicts :: "string list \<Rightarrow> string \<Rightarrow> container \<Rightarrow> status_dict list" where
  "file_status_dicts filetypes error_msg parent_obj =
     map (\<lambda>file_obj.
            [(''origin_filename'', JStr (file_name file_obj)),
             (''origin_parent'', JStr (cid parent_obj)),
             (''origin_parent_type'', JStr (ctype parent_obj)),
             (''export_filename'', JNull),
             (''export_file_id'', JNull),
             (''export_parent'', JNull),
             (''state'', JStr ''error''),
             (''errors'', JStr error_msg)])
       (filter (\<lambda>file_obj. case file_type file_obj of Some t \<Rightarrow> t \<in> set filetypes | None \<Rightarrow> False)
          (files parent_obj))"

fun acquisition_status_dicts :: "store \<Rightarrow> string list \<Rightarrow> string \<Rightarrow> container list \<Rightarrow> pyerr + status_dict list" where
  "acquisition_status_dicts st filetypes error_msg [] = Inr []"
| "acquisition_status_dicts st filetypes error_msg (acquisition_obj # rest) =
     and_then (get_container st (cid acquisition_obj))
       (\<lambda>acquisition_obj.
          and_then (acquisition_status_dicts st filetypes error_msg rest)
            (\<lambda>rows. Inr (file_status_dicts filetypes error_msg acquisition_obj @ rows)))"

text \<open>\<^verbatim>\<open>get_session_error_df\<close> (lines 539 to 576).\<close>

definition get_session_error_df ::
    "store \<Rightarrow> container \<Rightarrow> string \<Rightarrow> string list option \<Rightarrow> bool \<Rightarrow> bool \<Rightarrow> pyerr + status_dict list" where
  "get_session_error_df st session_obj error_msg filetypes_arg project_files subject_files =
     (let filetypes = (case filetypes_arg of None \<Rightarrow> [''dicom''] | Some ts \<Rightarrow> ts) in
      and_then (get_container st (cid session_obj))
        (\<lambda>session_obj.
           and_then
             (if project_files then
                and_then (get_project_of st session_obj)
                  (\<lambda>project_obj. Inr (file_status_dicts filetypes error_msg project_obj))
              else Inr [])
             (\<lambda>project_rows.
                and_then
                  (if subject_files then
                     and_then (get_container st (parent_id session_obj))
                       (\<lambda>subject_obj. Inr (file_status_dicts filetypes error_msg subject_obj))
                   else Inr [])
                  (\<lambda>subject_rows.
                     and_then
                       (acquisition_status_dicts st filetypes error_msg
                          (children st ''acquisition'' (cid session_obj)))
                       (\<lambda>acquisition_rows.
                          Inr (project_rows @ subject_rows
                               @ file_status_dicts filetypes error_msg session_obj
                               @ acquisition_rows))))))"

text \<open>
  \<^verbatim>\<open>_export_session\<close> (lines 594 to 616). The count is read from the table before the
  test \<^verbatim>\<open>isinstance(session_df, pd.DataFrame)\<close>. The call is entered in the machine's
  list of calls.
\<close>

definition inner_export_session ::
    "world \<Rightarrow> string \<Rightarrow> string option \<Rightarrow> bool \<Rightarrow> machine \<Rightarrow> string \<Rightarrow> string \<Rightarrow> bool \<Rightarrow> bool \<Rightarrow> string option
       \<Rightarrow> (pyerr + nat) \<times> machine" where
  "inner_export_session w dest_proj_id csv_output_path overwrite m0 session_id session_template_path
     project_files subject_files sess_error_msg =
     (let m = m0\<lparr>m_calls := m_calls m0 @
                  [\<lparr>call_session_id = session_id, call_template_path = session_template_path,
                    call_project_files = project_files, call_subject_files = subject_files,
                    call_error_msg = sess_error_msg\<rparr>]\<rparr>
      in case (case sess_error_msg of
                 None \<Rightarrow>
                   export_session w m session_id dest_proj_id session_template_path subject_files
                     project_files None overwrite
               | Some msg \<Rightarrow>
                   if msg = [] then
                     export_session w m session_id dest_proj_id session_template_path subject_files
                       project_files None overwrite
                   else
                     (case and_then (get_container (m_store m) session_id)
                             (\<lambda>session_obj.
                                get_session_error_df (m_store m) session_obj msg None False False) of
                        Inl e \<Rightarrow> (Inl e, m)
                      | Inr rows \<Rightarrow> (Inr (Some rows), m))) of
           (Inl e, m1) \<Rightarrow> (Inl e, m1)
         | (Inr session_df, m1) \<Rightarrow>
             (case state_error_count session_df of
                Inl e \<Rightarrow> (Inl e, m1)
              | Inr df_count \<Rightarrow>
                  (Inr df_count,
                   case session_df of
                     None \<Rightarrow> m1
                   | Some rows \<Rightarrow>
                       (case csv_output_path of
                          None \<Rightarrow> m1
                        | Some path \<Rightarrow>
                            if path = [] \<or> length rows < 1 then m1
                            else if map_of (m_csv m1) path = None then write_csv m1 path rows
                            else append_csv m1 path rows))))"

text \<open>\<^verbatim>\<open>os.path.join\<close> of two components (POSIX).\<close>

definition path_join :: "string \<Rightarrow> string \<Rightarrow> string" where
  "path_join a b =
     (if b \<noteq> [] \<and> hd b = CHR ''/'' then b
      else if a = [] \<or> last a = CHR ''/'' then a @ b
      else a @ ''/'' @ b)"

text \<open>
  \<^verbatim>\<open>_get_subject_template\<close> (lines 618 to 628). The handler of the exception formats
  \<^verbatim>\<open>subject.code\<close>: \<^verbatim>\<open>subject\<close> is the variable of the loop over a project's subjects in
  \<^verbatim>\<open>export_container\<close>, not the parameter \<^verbatim>\<open>subject_obj\<close>, and it is bound only while
  that loop runs (\<open>loop_subject\<close>).
\<close>

definition inner_get_subject_template ::
    "world \<Rightarrow> string \<Rightarrow> code_table \<Rightarrow> json \<Rightarrow> container option \<Rightarrow> container \<Rightarrow> string
       \<Rightarrow> pyerr + (string \<times> string option)" where
  "inner_get_subject_template w template_path df template_obj loop_subject subject_obj directory_path =
     (let subj_template_path =
            path_join directory_path (cid subject_obj @ ''_'' @ basename template_path)
      in case get_updated_template w df template_obj (attr subject_obj ''code'') subj_template_path of
           Inr path \<Rightarrow> Inr (path, None)
         | Inl e \<Rightarrow>
             (case loop_subject of
                None \<Rightarrow> Inl NameError
              | Some subject \<Rightarrow>
                  (let (code, h) = load (attr subject ''code'') []
                   in Inr (subj_template_path,
                           Some (''An exception occured when creating subject template for ''
                                 @ py_str (base w) h code @ '': '' @ e)))))"

text \<open>
  The loop of \<^verbatim>\<open>_export_subject\<close> over the subject's sessions (lines 638 to 644).
  \<open>subj_error_msg\<close> is \<open>None\<close> while the variable \<^verbatim>\<open>subj_error_msg\<close> is not bound:
  reading it for the call raises.
\<close>

fun export_subject_sessions ::
    "world \<Rightarrow> string \<Rightarrow> string option \<Rightarrow> bool \<Rightarrow> string \<Rightarrow> string option option \<Rightarrow> machine \<Rightarrow> bool \<Rightarrow> bool \<Rightarrow> nat
       \<Rightarrow> container list \<Rightarrow> (pyerr + nat) \<times> machine" where
  "export_subject_sessions w dest_proj_id csv_output_path overwrite subj_template_path subj_error_msg m
     project_files subject_files subject_error_count [] = (Inr subject_error_count, m)"
| "export_subject_sessions w dest_proj_id csv_output_path overwrite subj_template_path subj_error_msg m
     project_files subject_files subject_error_count (session # rest) =
     (case subj_error_msg of
        None \<Rightarrow> (Inl NameError, m)
      | Some msg \<Rightarrow>
          (case inner_export_session w dest_proj_id csv_output_path overwrite m (cid session)
                  subj_template_path project_files subject_files msg of
             (Inl e, m1) \<Rightarrow> (Inl e, m1)
           | (Inr sess_count, m1) \<Rightarrow>
               export_subject_sessions w dest_proj_id csv_output_path overwrite subj_template_path
                 subj_error_msg m1 False False (subject_error_count + sess_count) rest))"

text \<open>
  \<^verbatim>\<open>_export_subject\<close> (lines 630 to 645). The temporary directory is removed when the
  \<^verbatim>\<open>with\<close> block is left, by the \<^verbatim>\<open>return\<close> or by an exception.
\<close>

definition inner_export_subject ::
    "world \<Rightarrow> string \<Rightarrow> string \<Rightarrow> string option \<Rightarrow> bool \<Rightarrow> code_table option \<Rightarrow> json \<Rightarrow> container option
       \<Rightarrow> machine \<Rightarrow> container \<Rightarrow> bool \<Rightarrow> (pyerr + nat) \<times> machine" where
  "inner_export_subject w dest_proj_id template_path csv_output_path overwrite df template_obj
     loop_subject m subject_obj project_files =
     (let temp_dir = mkdtemp w (length (m_removed m));
          (result, m1) =
            (case (case df of
                     None \<Rightarrow> Inr (template_path, None)
                   | Some table \<Rightarrow>
                       and_then
                         (inner_get_subject_template w template_path table template_obj loop_subject
                            subject_obj temp_dir)
                         (\<lambda>(path, msg). Inr (path, Some msg))) of
               Inl e \<Rightarrow> (Inl e, m)
             | Inr (subj_template_path, subj_error_msg) \<Rightarrow>
                 export_subject_sessions w dest_proj_id csv_output_path overwrite subj_template_path
                   subj_error_msg m project_files True 0
                   (children (m_store m) ''session'' (cid subject_obj)))
      in (result, m1\<lparr>m_removed := m_removed m1 @ [temp_dir]\<rparr>))"

text \<open>The loop of \<^verbatim>\<open>export_container\<close> over a project's subjects (lines 651 to 655).\<close>

fun export_project_subjects ::
    "world \<Rightarrow> string \<Rightarrow> string \<Rightarrow> string option \<Rightarrow> bool \<Rightarrow> code_table option \<Rightarrow> json \<Rightarrow> machine \<Rightarrow> bool \<Rightarrow> nat
       \<Rightarrow> container list \<Rightarrow> (pyerr + nat) \<times> machine" where
  "export_project_subjects w dest_proj_id template_path csv_output_path overwrite df template_obj m
     project_files error_count [] = (Inr error_count, m)"
| "export_project_subjects w dest_proj_id template_path csv_output_path overwrite df template_obj m
     project_files error_count (subject # rest) =
     (case inner_export_subject w dest_proj_id template_path csv_output_path overwrite df template_obj
             (Some subject) m subject project_files of
        (Inl e, m1) \<Rightarrow> (Inl e, m1)
      | (Inr subj_error_count, m1) \<Rightarrow>
          export_project_subjects w dest_proj_id template_path csv_output_path overwrite df
            template_obj m1 False (error_count + subj_error_count) rest)"

fun json_truthy :: "json \<Rightarrow> bool" where
  "json_truthy JNull = False"
| "json_truthy (JBool b) = b"
| "json_truthy (JInt i) = (i \<noteq> 0)"
| "json_truthy (JStr s) = (s \<noteq> [])"
| "json_truthy (JList js) = (js \<noteq> [])"
| "json_truthy (JDict kvs) = (kvs \<noteq> [])"

text \<open>
  \<^verbatim>\<open>export_container\<close> (lines 580 to 671). The column names are arguments of the
  template collaborator only and are part of \<open>validate\<close> and \<open>get_updated_template\<close>.
  In the session scope the \<^verbatim>\<open>with\<close> block ends, and its directory is removed, before
  the session is exported.
\<close>

definition export_container ::
    "world \<Rightarrow> machine \<Rightarrow> string \<Rightarrow> string \<Rightarrow> string \<Rightarrow> string option \<Rightarrow> bool \<Rightarrow> string option
       \<Rightarrow> (pyerr + nat) \<times> machine" where
  "export_container w m container_id dest_proj_id template_path csv_output_path overwrite subject_csv_path =
     (case and_then (get_container (m_store m) container_id)
             (\<lambda>c. get_container (m_store m) (cid c)) of
        Inl e \<Rightarrow> (Inl e, m)
      | Inr container \<Rightarrow>
          (case load_template_file w (m_removed m) template_path of
             Inl e \<Rightarrow> (Inl e, m)
           | Inr template_obj \<Rightarrow>
               (case (case subject_csv_path of
                        None \<Rightarrow> Inr None
                      | Some csv_path \<Rightarrow>
                          if csv_path \<noteq> [] \<and> json_truthy template_obj
                          then validate w template_path csv_path else Inr None) of
                  Inl e \<Rightarrow> (Inl e, m)
                | Inr df \<Rightarrow>
                    if ctype container \<notin> {''subject'', ''project'', ''session''} then (Inl ValueError, m)
                    else if ctype container = ''project'' then
                      export_project_subjects w dest_proj_id template_path csv_output_path overwrite df
                        template_obj m True 0 (children (m_store m) ''subject'' (cid container))
                    else if ctype container = ''subject'' then
                      inner_export_subject w dest_proj_id template_path csv_output_path overwrite df
                        template_obj None m container False
                    else
                      (let temp_dir = mkdtemp w (length (m_removed m));
                           m1 = m\<lparr>m_removed := m_removed m @ [temp_dir]\<rparr>
                       in case (case df of
                                  None \<Rightarrow> Inr (template_path, None)
                                | Some table \<Rightarrow>
                                    and_then (get_container (m_store m) (parent_id container))
                                      (\<lambda>subject_obj.
                                         and_then
                                           (inner_get_subject_template w template_path table
                                              template_obj None subject_obj temp_dir)
                                           (\<lambda>(path, msg). Inr (path, Some msg)))) of
                            Inl e \<Rightarrow> (Inl e, m1)
                          | Inr (sess_template_path, session_export_error) \<Rightarrow>
                              (case session_export_error of
                                 None \<Rightarrow> (Inl NameError, m1)
                               | Some msg \<Rightarrow>
                                   inner_export_session w dest_proj_id csv_output_path overwrite m1
                                     container_id sess_template_path False False msg)))))"

section \<open>An example: two projects, a template, a world\<close>

text \<open>
  A query engine for the examples, after section 6 of the spec: a filter is a list of
  conditions \<^verbatim>\<open>field=value\<close> joined by commas, all of which must hold; a field is a path
  of keys joined by points; a value in double quotes is that string, a value that looks
  numeric and is not quoted is a number (no string equals it), any other value is a
  string.
\<close>

fun split_all :: "char \<Rightarrow> string \<Rightarrow> string list" where
  "split_all c [] = [[]]"
| "split_all c (x # xs) =
     (if x = c then [] # split_all c xs
      else (case split_all c xs of [] \<Rightarrow> [[x]] | p # ps \<Rightarrow> (x # p) # ps))"

definition condition_holds :: "container \<Rightarrow> string \<Rightarrow> bool" where
  "condition_holds c condition =
     (let field = takeWhile (\<lambda>x. x \<noteq> CHR ''='') condition;
          text = drop 1 (dropWhile (\<lambda>x. x \<noteq> CHR ''='') condition);
          found = json_path (to_dict c) (split_all (CHR ''.'') field)
      in if length text \<ge> 2 \<and> hd text = dquote \<and> last text = dquote
         then found = Some (JStr (butlast (tl text)))
         else \<not> numeric_match text \<and> found = Some (JStr text))"

definition example_engine :: "string \<Rightarrow> container \<Rightarrow> bool" where
  "example_engine query c = list_all (condition_holds c) (split_all (CHR '','') query)"

definition example_env :: env where
  "example_env =
     \<lparr>hexdigest = example_sha1, engine = example_engine, py_repr = (\<lambda>h a. ''<object>'')\<rparr>"

text \<open>
  The origin project \<^verbatim>\<open>p1\<close> has the subjects \<^verbatim>\<open>s0\<close> (no session) and \<^verbatim>\<open>s1\<close> (sessions
  \<^verbatim>\<open>e1\<close>, with the acquisition \<^verbatim>\<open>a1\<close>, and \<^verbatim>\<open>e2\<close>); the destination project \<^verbatim>\<open>p2\<close> is
  empty.
\<close>

definition example_store :: store where
  "example_store =
     [\<lparr>cid = ''p1'', ctype = ''project'', parent_id = [],
        attrs = [(''label'', JStr ''Origin''), (''info'', JDict [])],
        files = [\<lparr>file_name = ''protocol.pdf'', file_type = Some ''pdf''\<rparr>,
                 \<lparr>file_name = ''atlas.dcm'', file_type = Some ''dicom''\<rparr>]\<rparr>,
      \<lparr>cid = ''s0'', ctype = ''subject'', parent_id = ''p1'',
        attrs = [(''code'', JStr ''1000''), (''label'', JStr ''1000''), (''info'', JDict [])],
        files = []\<rparr>,
      \<lparr>cid = ''s1'', ctype = ''subject'', parent_id = ''p1'',
        attrs = [(''code'', JStr ''1001''), (''label'', JStr ''1001''), (''sex'', JStr ''F''),
                 (''info'', JDict [])],
        files = [\<lparr>file_name = ''consent.dcm'', file_type = Some ''dicom''\<rparr>]\<rparr>,
      \<lparr>cid = ''e1'', ctype = ''session'', parent_id = ''s1'',
        attrs = [(''label'', JStr ''visit''), (''age'', JInt 30), (''info'', JDict [(''a'', JInt 1)])],
        files = [\<lparr>file_name = ''notes.txt'', file_type = None\<rparr>]\<rparr>,
      \<lparr>cid = ''a1'', ctype = ''acquisition'', parent_id = ''e1'',
        attrs = [(''label'', JStr ''T1''), (''info'', JDict [])],
        files = [\<lparr>file_name = ''scan.dcm'', file_type = Some ''dicom''\<rparr>,
                 \<lparr>file_name = ''scan.nii'', file_type = Some ''nifti''\<rparr>]\<rparr>,
      \<lparr>cid = ''e2'', ctype = ''session'', parent_id = ''s1'',
        attrs = [(''label'', JStr ''followup''), (''info'', JDict [])],
        files = [\<lparr>file_name = ''scan2.dcm'', file_type = Some ''dicom''\<rparr>]\<rparr>,
      \<lparr>cid = ''p2'', ctype = ''project'', parent_id = [],
        attrs = [(''label'', JStr ''Dest''), (''info'', JDict [])], files = []\<rparr>]"

text \<open>
  The template \<^verbatim>\<open>basic.yaml\<close> copies the whole info of a session and asks for the label
  \<^verbatim>\<open>anon\<close> on acquisitions; \<^verbatim>\<open>nifti.yaml\<close> is the same with the file types
  \<^verbatim>\<open>['parrec']\<close>, which no file of the example has. The transfer of \<^verbatim>\<open>scan.dcm\<close> fails,
  every other transfer succeeds.
\<close>

definition example_export_config :: "(string \<times> json) list" where
  "example_export_config =
     [(''session'', JDict [(''whitelist'', JDict [(''info'', JStr ''all'')])]),
      (''acquisition'', JDict [(''label'', JStr ''anon'')])]"

definition example_template :: json where
  "example_template = JDict [(''dicom'', JDict []), (''export'', JDict example_export_config)]"

definition example_template_parrec :: json where
  "example_template_parrec =
     JDict [(''export'', JDict ((''file_types'', JList [JStr ''parrec'']) # example_export_config))]"

definition example_world :: world where
  "example_world =
     \<lparr>base = example_env,
      parse_template =
        (\<lambda>p. if suffix ''parrec.yaml'' p then Inr example_template_parrec
              else if splitext_ext p = ''.yaml'' then Inr example_template
              else Inl OSError),
      validate = (\<lambda>t c. Inr (Some [(''1001'', ''anon1'')])),
      get_updated_template = (\<lambda>table template code dest. Inr dest),
      transfer =
        (\<lambda>d t ow. if map_of d ''origin_filename'' = Some (JStr ''scan.dcm'')
                   then (''error'', JStr ''transfer failed'', JNull)
                   else (''success'', JNull, JStr ''f1'')),
      mkdtemp = (\<lambda>n. ''/tmp/export'' @ show_nat n)\<rparr>"

definition example_machine :: machine where
  "example_machine = \<lparr>m_store = example_store, m_csv = [], m_removed = [], m_calls = []\<rparr>"

definition example_acquisition_config :: json where
  "example_acquisition_config = JDict [(''label'', JStr ''anon'')]"

definition example_project_run :: "(pyerr + nat) \<times> machine" where
  "example_project_run =
     export_container example_world example_machine ''p1'' ''p2'' ''/t/basic.yaml''
       (Some ''report.csv'') False (Some ''codes.csv'')"

section \<open>What a reconciliation may do to the store\<close>

text \<open>
  The matchers add containers and update attributes. From one store to a later one no
  id is lost, and every container of the later store is either new (its id was not in
  use, and it has no file) or stands for a container of the earlier store with the same
  id, type, parent and files.
\<close>

definition store_grows :: "store \<Rightarrow> store \<Rightarrow> bool" where
  "store_grows st st' =
     (cid ` set st \<subseteq> cid ` set st'
      \<and> (\<forall>c' \<in> set st'.
            (cid c' \<notin> cid ` set st \<and> files c' = [])
            \<or> (\<exists>c \<in> set st. cid c = cid c' \<and> ctype c = ctype c' \<and> parent_id c = parent_id c'
                   \<and> files c = files c')))"

text \<open>No file of the container has a type that \<^verbatim>\<open>in filetype_list\<close> accepts.\<close>

definition no_job :: "json \<Rightarrow> container \<Rightarrow> bool" where
  "no_job filetype_list c = (\<forall>f \<in> set (files c). type_in (file_type f) filetype_list = Inr False)"

text \<open>The file types a template asks for (line 373).\<close>

definition template_file_types :: "json \<Rightarrow> json" where
  "template_file_types template =
     (case json_path template [''export'', ''file_types''] of
        Some v \<Rightarrow> v | None \<Rightarrow> JList [JStr ''dicom''])"

text \<open>No container with one of the given ids has a file that becomes a job.\<close>

definition no_jobs_at :: "json \<Rightarrow> string list \<Rightarrow> store \<Rightarrow> bool" where
  "no_jobs_at filetype_list ids st = (\<forall>c \<in> set st. cid c \<in> set ids \<longrightarrow> no_job filetype_list c)"

text \<open>
  The containers \<^verbatim>\<open>initialize_files\<close> reads files from: the session, its acquisitions,
  its subject if the subject's files are asked for, its project if the project's files
  are asked for.
\<close>

definition scope_ids :: "store \<Rightarrow> container \<Rightarrow> bool \<Rightarrow> bool \<Rightarrow> string list" where
  "scope_ids st session subject_files project_files =
     cid session # map cid (children st ''acquisition'' (cid session))
       @ (if subject_files then [parent_id session] else [])
       @ (if project_files then (case get_project_of st session of Inr p \<Rightarrow> [cid p] | Inl e \<Rightarrow> [])
          else [])"

section \<open>Running the session matcher again\<close>

text \<open>
  The label \<^verbatim>\<open>find_or_create_subject_session\<close> searches for and creates with (lines 233
  to 235): \<^verbatim>\<open>session_config.get('label', origin_session.label)\<close>, an empty
  configuration replaced by a new dictionary first.
\<close>

definition session_new_label :: "heap \<Rightarrow> container \<Rightarrow> pyval \<Rightarrow> pyerr + pyval" where
  "session_new_label h origin session_config =
     (let (config, h1) = config_or_empty h session_config;
          (label, h2) = load (attr origin ''label'') h1
      in py_get_default h2 config ''label'' label)"

text \<open>
  What the filter of lines 237 to 240 asks of a session, for the label \<open>new_label\<close>: the
  label, and at \<^verbatim>\<open>info.export.origin_id\<close> the hash of the origin's id. The sessions of a
  destination subject that have both, in the order of the store.
\<close>

definition session_matches :: "env \<Rightarrow> string \<Rightarrow> string \<Rightarrow> container \<Rightarrow> bool" where
  "session_matches env new_label origin_id c =
     (json_path (to_dict c) [''label''] = Some (JStr new_label)
      \<and> json_path (to_dict c) [''info'', ''export'', ''origin_id'']
          = Some (JStr (hash_string (hexdigest env) origin_id)))"

definition matching_sessions :: "env \<Rightarrow> store \<Rightarrow> string \<Rightarrow> string \<Rightarrow> string \<Rightarrow> container list" where
  "matching_sessions env st dest_subject new_label origin_id =
     filter (session_matches env new_label origin_id) (children st ''session'' dest_subject)"

text \<open>
  \<open>n\<close> more runs of the matcher for the same origin session, destination subject and
  configuration. Every run is a run of the program: it starts from the configuration as
  loaded, on the store the run before left. A run that raises has written nothing (the
  matcher writes with its last request).
\<close>

fun rerun_session :: "nat \<Rightarrow> env \<Rightarrow> heap \<Rightarrow> store \<Rightarrow> string \<Rightarrow> string \<Rightarrow> pyval \<Rightarrow> store" where
  "rerun_session 0 env h st origin_session dest_subject session_config = st"
| "rerun_session (Suc n) env h st origin_session dest_subject session_config =
     (case find_or_create_subject_session env h st origin_session dest_subject session_config of
        Inl e \<Rightarrow> rerun_session n env h st origin_session dest_subject session_config
      | Inr (c, h', st') \<Rightarrow> rerun_session n env h st' origin_session dest_subject session_config)"

text \<open>
  The example after an export of the session \<^verbatim>\<open>e1\<close>: the destination project has the
  subject \<^verbatim>\<open>d1\<close> with the session \<^verbatim>\<open>x1\<close>, made for \<^verbatim>\<open>e1\<close>, and the session \<^verbatim>\<open>x2\<close> with the
  same label, made for another origin.
\<close>

definition example_dest_store :: store where
  "example_dest_store =
     example_store @
     [\<lparr>cid = ''d1'', ctype = ''subject'', parent_id = ''p2'',
        attrs = [(''code'', JStr ''1001''), (''label'', JStr ''1001''), (''info'', JDict [])],
        files = []\<rparr>,
      \<lparr>cid = ''x2'', ctype = ''session'', parent_id = ''d1'',
        attrs = [(''label'', JStr ''visit''),
                 (''info'', JDict [(''export'', JDict [(''origin_id'', JStr ''#e9'')])])],
        files = []\<rparr>,
      \<lparr>cid = ''x1'', ctype = ''session'', parent_id = ''d1'',
        attrs = [(''label'', JStr ''visit''),
                 (''info'', JDict [(''a'', JInt 0), (''export'', JDict [(''origin_id'', JStr ''#e1'')])])],
        files = []\<rparr>]"

section \<open>Proofs\<close>

subsection \<open>The object store\<close>

lemma and_then_Inr: "(and_then m f = Inr y) = (\<exists>x. m = Inr x \<and> f x = Inr y)"
  by (cases m) (simp_all add: and_then_def)

lemma and_then_simps: "and_then (Inr x) f = f x" "and_then (Inl e) f = Inl e"
  by (simp_all add: and_then_def)

lemma and_thenE:
  assumes "and_then m f = Inr y"
  obtains x where "m = Inr x" "f x = Inr y"
  using assms by (cases m) (simp_all add: and_then_def)

lemma obj_at_append: "obj_at (h @ [x]) b = (if b < length h then obj_at h b else if b = length h then Some x else None)"
  by (simp add: obj_at_def nth_append)

lemma obj_at_update: "obj_at (h[a := x]) b = (if b = a \<and> a < length h then Some x else obj_at h b)"
  by (simp add: obj_at_def)

lemma obj_at_Some_lt: "obj_at h a = Some x \<Longrightarrow> a < length h"
  by (simp add: obj_at_def split: if_splits)

lemma py_setitem_Inr:
  "(py_setitem h x k v = Inr h') =
     (\<exists>a kvs. x = PRef a \<and> obj_at h a = Some (ODict kvs) \<and> h' = h[a := ODict (AList.update k v kvs)])"
  by (auto simp: py_setitem_def split: pyval.splits option.splits pyobj.splits)

lemma py_append_Inr:
  "(py_append h x v = Inr h') =
     (\<exists>a vs. x = PRef a \<and> obj_at h a = Some (OList vs) \<and> h' = h[a := OList (vs @ [v])])"
  by (auto simp: py_append_def split: pyval.splits option.splits pyobj.splits)

lemma as_dict_Some: "(as_dict h x = Some kvs) = (\<exists>a. x = PRef a \<and> obj_at h a = Some (ODict kvs))"
  by (cases x) (auto split: option.splits pyobj.splits)

lemma as_list_Some: "(as_list h x = Some vs) = (\<exists>a. x = PRef a \<and> obj_at h a = Some (OList vs))"
  by (cases x) (auto split: option.splits pyobj.splits)

lemma py_get_Inr: "(py_get h x k = Inr v) = (\<exists>kvs. as_dict h x = Some kvs \<and> v = dict_get kvs k)"
  by (auto simp: py_get_def split: option.splits)

lemma py_getitem_Inr: "(py_getitem h x k = Inr v) = (\<exists>kvs. as_dict h x = Some kvs \<and> map_of kvs k = Some v)"
  by (auto simp: py_getitem_def split: option.splits)

lemma obj_at_app_Some: "obj_at h b = Some x \<Longrightarrow> obj_at (h @ xs) b = Some x"
  by (auto simp: obj_at_def nth_append split: if_splits)

lemma dicts_kept_app: "dicts_kept h (h @ xs)"
  by (simp add: dicts_kept_def obj_at_app_Some)

lemma dicts_kept_refl: "dicts_kept h h" by (simp add: dicts_kept_def)
lemma dicts_kept_trans: "dicts_kept h h' \<Longrightarrow> dicts_kept h' h'' \<Longrightarrow> dicts_kept h h''" by (auto simp add: dicts_kept_def)
lemma dicts_kept_alloc: "alloc h x = (r, h') \<Longrightarrow> dicts_kept h h'"
  by (auto simp: dicts_kept_def alloc_def obj_at_append dest: obj_at_Some_lt)
lemma dicts_kept_append: "py_append h x v = Inr h' \<Longrightarrow> dicts_kept h h'"
  by (auto simp: dicts_kept_def py_append_Inr obj_at_update)

lemma metadata_whitelist_kept: "metadata_whitelist h T m mw = Inr (mw', h') \<Longrightarrow> dicts_kept h h'"
  by (auto simp: metadata_whitelist_def dicts_kept_refl split: if_splits pyval.splits option.splits dest: dicts_kept_alloc)

lemma info_whitelist_kept: "info_whitelist h i mw iw = Inr (mw', iw', h') \<Longrightarrow> dicts_kept h h'"
  by (auto simp: info_whitelist_def dicts_kept_refl and_then_Inr dicts_kept_append split: if_splits pyval.splits)

lemma parse_whitelists_kept: "parse_whitelists h T cfg = Inr (mw, iw, h') \<Longrightarrow> dicts_kept h h'"
proof -
  assume a: "parse_whitelists h T cfg = Inr (mw, iw, h')"
  let ?h2 = "(h @ [OList []]) @ [OList []]"
  have k: "dicts_kept h ?h2"
    using dicts_kept_app[of h "[OList [], OList []]"] by simp
  from a have "dicts_kept ?h2 h'"
    by (auto simp: parse_whitelists_def alloc_def and_then_Inr dicts_kept_refl
        split: option.splits dest: metadata_whitelist_kept info_whitelist_kept intro: dicts_kept_trans)
  with k show ?thesis by (rule dicts_kept_trans)
qed

lemma str_in_list_Inr: "(str_in_list h s x = Inr b) = (\<exists>vs. as_list h x = Some vs \<and> b = (PStr s \<in> set vs))"
  by (auto simp: str_in_list_def split: option.splits)

lemma copy_info_items_frame:
  "copy_info_items h (PRef a) iw items = Inr h' \<Longrightarrow> obj_at h a = Some (ODict [(''info'', PRef i)]) \<Longrightarrow> i \<noteq> a \<Longrightarrow>
     length h' = length h \<and> (\<forall>b. b \<noteq> i \<longrightarrow> obj_at h' b = obj_at h b)"
proof (induction items arbitrary: h)
  case Nil
  then show ?case by simp
next
  case (Cons kv items)
  obtain key v where kv: "kv = (key, v)" by (cases kv)
  from Cons.prems(1) obtain listed where l: "str_in_list h key iw = Inr listed"
    and rest: "(if listed then and_then (py_getitem h (PRef a) ''info'')
              (\<lambda>info. and_then (py_setitem h info key v)
                 (\<lambda>h'. copy_info_items h' (PRef a) iw items))
          else copy_info_items h (PRef a) iw items) = Inr h'"
    by (auto simp: kv and_then_Inr)
  show ?case
  proof (cases listed)
    case False
    with rest Cons.IH[of h] Cons.prems show ?thesis by simp
  next
    case True
    with rest Cons.prems(2) obtain kvs h1 where
      h1: "obj_at h i = Some (ODict kvs)" "h1 = h[i := ODict (AList.update key v kvs)]"
      and r: "copy_info_items h1 (PRef a) iw items = Inr h'"
      by (auto simp: and_then_Inr py_getitem_Inr py_setitem_Inr)
    from h1 Cons.prems have "obj_at h1 a = Some (ODict [(''info'', PRef i)])"
      by (simp add: obj_at_update)
    from Cons.IH[OF r this Cons.prems(3)] h1 show ?thesis
      by (auto simp: obj_at_update dest: obj_at_Some_lt)
  qed
qed

lemma build_info_effect:
  assumes b: "build_info h origin (PRef a) mw iw = Inr h'"
    and ma: "obj_at h a = Some (ODict [])"
    and ob: "obj_at h ob = Some (ODict okvs)" "origin = PRef ob" "ob \<noteq> a"
  shows "\<exists>v. obj_at h' a = Some (ODict [(''info'', v)])
           \<and> (v = PRef (length h) \<or> v = dict_get okvs ''info'')
           \<and> length h' = Suc (length h) \<and> obj_at h' ob = Some (ODict okvs)"
proof -
  let ?i = "length h"
  let ?h1 = "h @ [ODict []]"
  let ?h2 = "?h1[a := ODict [(''info'', PRef ?i)]]"
  have alt: "a < length h" "ob < length h" using ma ob by (auto dest: obj_at_Some_lt)
  have ma1: "obj_at ?h1 a = Some (ODict [])" using ma by (rule obj_at_app_Some)
  have ob2: "obj_at ?h2 ob = Some (ODict okvs)"
    using ob alt by (simp add: obj_at_update obj_at_append)
  have ma2: "obj_at ?h2 a = Some (ODict [(''info'', PRef ?i)])"
    using alt by (simp add: obj_at_update)
  have get: "py_get ?h2 origin ''info'' = Inr (dict_get okvs ''info'')"
    using ob2 ob(2) by (simp add: py_get_def)
  have s1: "py_setitem ?h1 (PRef a) ''info'' (PRef ?i) = Inr ?h2"
    using ma1 by (simp add: py_setitem_def)
  have "build_info h origin (PRef a) mw iw =
      and_then (str_in_list ?h2 ''info'' mw) (\<lambda>whole. if whole then py_setitem ?h2 (PRef a) ''info'' (dict_get okvs ''info'')
        else case as_dict ?h2 (dict_get okvs ''info'') of None \<Rightarrow> Inr ?h2
             | Some items \<Rightarrow> copy_info_items ?h2 (PRef a) iw items)"
    by (simp add: build_info_def alloc_def s1 get and_then_simps cong: if_cong)
  with b obtain whole where w: "str_in_list ?h2 ''info'' mw = Inr whole"
    and rest: "(if whole then py_setitem ?h2 (PRef a) ''info'' (dict_get okvs ''info'')
        else case as_dict ?h2 (dict_get okvs ''info'') of None \<Rightarrow> Inr ?h2
             | Some items \<Rightarrow> copy_info_items ?h2 (PRef a) iw items) = Inr h'"
    by (auto simp: and_then_Inr)
  show ?thesis
  proof (cases whole)
    case True
    with rest ma2 have "h' = ?h2[a := ODict [(''info'', dict_get okvs ''info'')]]"
      by (auto simp: py_setitem_Inr)
    then show ?thesis using alt ob by (simp add: obj_at_update obj_at_append)
  next
    case False
    show ?thesis
    proof (cases "as_dict ?h2 (dict_get okvs ''info'')")
      case None
      with rest False have "h' = ?h2" by simp
      then show ?thesis using ma2 ob2 by simp
    next
      case (Some items)
      with rest False have c: "copy_info_items ?h2 (PRef a) iw items = Inr h'" by simp
      have ne: "length h \<noteq> a" "length h \<noteq> ob" using alt by simp_all
      from copy_info_items_frame[OF c ma2 ne(1)] ne(2)
      have "length h' = length ?h2" "obj_at h' a = obj_at ?h2 a" "obj_at h' ob = obj_at ?h2 ob"
        using alt by auto
      then show ?thesis using ma2 ob2 by simp
    qed
  qed
qed

lemma stamp_origin_id_effect:
  assumes st: "stamp_origin_id sha1 h origin (PRef a) = Inr h'"
    and ma: "obj_at h a = Some (ODict [(''info'', v)])"
    and ob: "obj_at h ob = Some (ODict okvs)" "origin = PRef ob"
    and v: "ref_below (length h) v" "v \<noteq> PRef a"
  shows "\<exists>s t tk. dict_get okvs ''id'' = PStr s \<and> v = PRef t \<and> t < length h
           \<and> obj_at h' a = Some (ODict [(''info'', PRef t)])
           \<and> obj_at h' t = Some (ODict tk) \<and> map_of tk ''export'' = Some (PRef (length h))
           \<and> obj_at h' (length h) = Some (ODict [(''origin_id'', PStr (hash_string sha1 s))])"
proof -
  have get: "py_get h origin ''id'' = Inr (dict_get okvs ''id'')"
    using ob by (simp add: py_get_def)
  from st obtain s where s: "dict_get okvs ''id'' = PStr s"
    by (auto simp: stamp_origin_id_def get and_then_simps split: pyval.splits)
  let ?c = "length h"
  let ?h1 = "h @ [ODict [(''origin_id'', PStr (hash_string sha1 s))]]"
  have ma1: "obj_at ?h1 a = Some (ODict [(''info'', v)])" using ma by (rule obj_at_app_Some)
  then have gi: "py_getitem ?h1 (PRef a) ''info'' = Inr v" by (simp add: py_getitem_def)
  from st have "py_setitem ?h1 v ''export'' (PRef ?c) = Inr h'"
    by (simp add: stamp_origin_id_def get s and_then_simps alloc_def gi)
  then obtain t tk where t: "v = PRef t" "obj_at ?h1 t = Some (ODict tk)"
    "h' = ?h1[t := ODict (AList.update ''export'' (PRef ?c) tk)]"
    by (auto simp: py_setitem_Inr)
  from v t have tl: "t < length h" "t \<noteq> a" by auto
  have "a < length h" using ma by (rule obj_at_Some_lt)
  with t tl ma show ?thesis
    by (auto simp: s obj_at_update obj_at_append update_conv')
qed


lemma copy_fields_effect:
  "copy_fields h origin (Some allowed) (PRef a) wl = Inr h' \<Longrightarrow> obj_at h a = Some (ODict kvs) \<Longrightarrow>
    \<exists>kvs'. obj_at h' a = Some (ODict kvs') \<and> set (map fst kvs') \<subseteq> set (map fst kvs) \<union> set allowed
        \<and> (\<forall>k v. map_of kvs k = Some v \<longrightarrow> map_of kvs' k = Some v)
        \<and> length h' = length h \<and> (\<forall>b. b \<noteq> a \<longrightarrow> obj_at h' b = obj_at h b)"
proof (induction wl arbitrary: h kvs)
  case Nil
  then show ?case by simp
next
  case (Cons item wl)
  let ?rest = "\<lambda>h. copy_fields h origin (Some allowed) (PRef a) wl"
  have al: "a < length h" using Cons.prems(2) by (rule obj_at_Some_lt)
  show ?case
  proof (cases "\<exists>k v. item = PStr k \<and> k \<in> set allowed \<and> py_get h origin k = Inr v \<and> truthy h v \<and> k \<notin> set (map fst kvs)")
    case False
    with Cons.prems have "?rest h = Inr h'"
      by (auto simp: and_then_Inr split: pyval.splits if_splits)
    from Cons.IH[OF this Cons.prems(2)] show ?thesis .
  next
    case True
    then obtain k v where kv: "item = PStr k" "k \<in> set allowed" "py_get h origin k = Inr v" "truthy h v"
      "k \<notin> set (map fst kvs)" by blast
    let ?h1 = "h[a := ODict (AList.update k v kvs)]"
    from Cons.prems kv have r: "?rest ?h1 = Inr h'"
      by (auto simp: and_then_simps py_setitem_def)
    have m1: "obj_at ?h1 a = Some (ODict (AList.update k v kvs))" using al by (simp add: obj_at_update)
    from Cons.IH[OF r m1] obtain kvs' where k': "obj_at h' a = Some (ODict kvs')"
      "set (map fst kvs') \<subseteq> set (map fst (AList.update k v kvs)) \<union> set allowed"
      "\<forall>k' v'. map_of (AList.update k v kvs) k' = Some v' \<longrightarrow> map_of kvs' k' = Some v'"
      "length h' = length ?h1" "\<forall>b. b \<noteq> a \<longrightarrow> obj_at h' b = obj_at ?h1 b" by blast
    have "map_of kvs k = None" using kv(5) by (simp add: map_of_eq_None_iff)
    have pres: "\<forall>k' v'. map_of kvs k' = Some v' \<longrightarrow> map_of kvs' k' = Some v'"
    proof (intro allI impI)
      fix k' v' assume kv': "map_of kvs k' = Some v'"
      with \<open>map_of kvs k = None\<close> have "k' \<noteq> k" by auto
      with kv' have "map_of (AList.update k v kvs) k' = Some v'" by (simp add: update_conv')
      with k'(3) show "map_of kvs' k' = Some v'" by blast
    qed
    have "set (map fst (AList.update k v kvs)) \<subseteq> set (map fst kvs) \<union> set allowed"
      using kv(2) by (auto simp: AList.dom_update)
    with k'(2) have sub: "set (map fst kvs') \<subseteq> set (map fst kvs) \<union> set allowed" by blast
    have "length h' = length h" using k'(4) by simp
    moreover have "\<forall>b. b \<noteq> a \<longrightarrow> obj_at h' b = obj_at h b" using k'(5) by (simp add: obj_at_update)
    ultimately show ?thesis using k'(1) sub pres by blast
  qed
qed

lemma copy_fields_None: "copy_fields h origin None m wl = Inr h' \<Longrightarrow> h' = h"
  by (cases wl) simp_all

lemma heap_ok_dict_get:
  "heap_ok h \<Longrightarrow> obj_at h a = Some (ODict kvs) \<Longrightarrow> ref_below (length h) (dict_get kvs k)"
proof -
  assume ok: "heap_ok h" and a: "obj_at h a = Some (ODict kvs)"
  from a have "ODict kvs \<in> set h" by (auto simp: obj_at_def in_set_conv_nth split: if_splits)
  with ok have *: "\<forall>v \<in> set (map snd kvs). ref_below (length h) v" by (force simp: heap_ok_def)
  show ?thesis
  proof (cases "map_of kvs k")
    case None then show ?thesis by (simp add: dict_get_def)
  next
    case (Some v)
    then have "(k, v) \<in> set kvs" by (rule map_of_SomeD)
    with * Some show ?thesis by (force simp: dict_get_def)
  qed
qed

lemma ref_below_neq: "ref_below n v \<Longrightarrow> v \<noteq> PRef n"
  by (cases v) simp_all

lemma ref_below_mono: "ref_below n v \<Longrightarrow> n \<le> m \<Longrightarrow> ref_below m v"
  by (cases v) simp_all


lemma create_metadata_dict_effect:
  assumes ok: "heap_ok h"
    and c: "create_metadata_dict sha1 h origin T config = Inr (meta, h')"
  shows "\<exists>s t tk kvs. py_get h origin ''id'' = Inr (PStr s)
           \<and> meta = PRef (length h) \<and> t \<noteq> length h
           \<and> obj_at h' (length h) = Some (ODict kvs)
           \<and> map_of kvs ''info'' = Some (PRef t)
           \<and> set (map fst kvs) \<subseteq> {''info''} \<union> (case META_WHITELIST_DICT T of None \<Rightarrow> {} | Some allowed \<Rightarrow> set allowed)
           \<and> obj_at h' t = Some (ODict tk)
           \<and> (\<exists>c. map_of tk ''export'' = Some (PRef c)
                \<and> obj_at h' c = Some (ODict [(''origin_id'', PStr (hash_string sha1 s))]))"
proof -
  let ?a = "length h"
  let ?h1 = "h @ [ODict []]"
  from c obtain ob okvs where ob: "origin = PRef ob" "obj_at h ob = Some (ODict okvs)"
    by (auto simp: create_metadata_dict_def and_then_Inr py_get_Inr as_dict_Some)
  then have get: "py_get h origin ''id'' = Inr (dict_get okvs ''id'')" by (simp add: py_get_def)
  have obl: "ob < ?a" using ob(2) by (rule obj_at_Some_lt)
  from c have tr: "truthy h (dict_get okvs ''id'')"
    by (simp add: create_metadata_dict_def get and_then_simps split: if_splits)
  from c tr have c1: "and_then (parse_whitelists ?h1 T config)
                  (\<lambda>(meta_wl, info_wl, h2).
                     and_then (build_info h2 origin (PRef ?a) meta_wl info_wl)
                       (\<lambda>h3. and_then (stamp_origin_id sha1 h3 origin (PRef ?a))
                          (\<lambda>h4. case as_list h4 meta_wl of
                                   None \<Rightarrow> Inl TypeError
                                 | Some wl \<Rightarrow>
                                     and_then
                                       (copy_fields h4 origin
                                          (META_WHITELIST_DICT T) (PRef ?a) wl)
                                       (\<lambda>h5. Inr (PRef ?a, h5))))) = Inr (meta, h')"
    by (simp add: create_metadata_dict_def get and_then_simps alloc_def)
  from c1 obtain mw iw h2 where p: "parse_whitelists ?h1 T config = Inr (mw, iw, h2)"
    and c2: "and_then (build_info h2 origin (PRef ?a) mw iw)
                       (\<lambda>h3. and_then (stamp_origin_id sha1 h3 origin (PRef ?a))
                          (\<lambda>h4. case as_list h4 mw of
                                   None \<Rightarrow> Inl TypeError
                                 | Some wl \<Rightarrow>
                                     and_then
                                       (copy_fields h4 origin
                                          (META_WHITELIST_DICT T) (PRef ?a) wl)
                                       (\<lambda>h5. Inr (PRef ?a, h5)))) = Inr (meta, h')"
    by (elim and_thenE) (auto split: prod.splits)
  from c2 obtain h3 h4 where b: "build_info h2 origin (PRef ?a) mw iw = Inr h3"
    and st: "stamp_origin_id sha1 h3 origin (PRef ?a) = Inr h4"
    and c3: "(case as_list h4 mw of
                                   None \<Rightarrow> Inl TypeError
                                 | Some wl \<Rightarrow>
                                     and_then
                                       (copy_fields h4 origin
                                          (META_WHITELIST_DICT T) (PRef ?a) wl)
                                       (\<lambda>h5. Inr (PRef ?a, h5))) = Inr (meta, h')"
    by (elim and_thenE)
  from c3 obtain wl where wl: "as_list h4 mw = Some wl"
    and cf: "copy_fields h4 origin (META_WHITELIST_DICT T) (PRef ?a) wl = Inr h'"
    and meta: "meta = PRef ?a"
    by (cases "as_list h4 mw") (auto elim!: and_thenE)
  from parse_whitelists_kept[OF p] have k12: "dicts_kept ?h1 h2" .
  have "obj_at ?h1 ?a = Some (ODict [])" "obj_at ?h1 ob = Some (ODict okvs)"
    using ob obl by (simp_all add: obj_at_append)
  with k12 have h2: "obj_at h2 ?a = Some (ODict [])" "obj_at h2 ob = Some (ODict okvs)" "Suc ?a \<le> length h2"
    by (auto simp: dicts_kept_def)
  from build_info_effect[OF b h2(1) h2(2) ob(1)] obl obtain v where
    v: "obj_at h3 ?a = Some (ODict [(''info'', v)])" "v = PRef (length h2) \<or> v = dict_get okvs ''info''"
      "length h3 = Suc (length h2)" "obj_at h3 ob = Some (ODict okvs)" by auto
  have rb: "ref_below ?a (dict_get okvs ''info'')" using ok ob(2) by (rule heap_ok_dict_get)
  have v3: "ref_below (length h3) v"
    using v(2) v(3) h2(3) ref_below_mono[OF rb, of "length h3"] by auto
  have vne: "v \<noteq> PRef ?a" using v(2) h2(3) ref_below_neq[OF rb] by auto
  from stamp_origin_id_effect[OF st v(1) v(4) ob(1) v3 vne] obtain s t tk where
    s: "dict_get okvs ''id'' = PStr s" "v = PRef t" "t < length h3"
      "obj_at h4 ?a = Some (ODict [(''info'', PRef t)])"
      "obj_at h4 t = Some (ODict tk)" "map_of tk ''export'' = Some (PRef (length h3))"
      "obj_at h4 (length h3) = Some (ODict [(''origin_id'', PStr (hash_string sha1 s))])" by blast
  have tne: "t \<noteq> ?a" using vne s(2) by simp
  have cne: "length h3 \<noteq> ?a" using v(3) h2(3) by simp
  show ?thesis
  proof (cases "META_WHITELIST_DICT T")
    case None
    with cf have "h' = h4" by (simp add: copy_fields_None)
    with s tne get meta None show ?thesis by auto
  next
    case (Some allowed)
    with cf have "copy_fields h4 origin (Some allowed) (PRef ?a) wl = Inr h'" by simp
    from copy_fields_effect[OF this s(4)] obtain kvs' where
      k: "obj_at h' ?a = Some (ODict kvs')" "set (map fst kvs') \<subseteq> set (map fst [(''info'', PRef t)]) \<union> set allowed"
        "\<forall>k v. map_of [(''info'', PRef t)] k = Some v \<longrightarrow> map_of kvs' k = Some v"
        "\<forall>b. b \<noteq> ?a \<longrightarrow> obj_at h' b = obj_at h4 b" by blast
    from k(3) have "map_of kvs' ''info'' = Some (PRef t)" by simp
    with k s tne cne get meta Some show ?thesis by auto
  qed
qed

subsection \<open>The metadata reconciler\<close>

lemma example_run:
  "create_metadata_dict example_sha1 example_config_heap (PRef 0) ''session'' (PRef 2)
     = Inr (PRef 5, example_result_heap)"
  by code_simp

text \<open>
  Claim C3 (whitelist closure). For a container type of the table (subject, session or
  acquisition), any origin dictionary and any configuration, well formed or not: when
  \<^verbatim>\<open>create_metadata_dict\<close> returns, the keys of the returned dictionary are fields of
  the type's entry in \<^verbatim>\<open>META_WHITELIST_DICT\<close>, or \<^verbatim>\<open>'info'\<close>.
\<close>

theorem whitelist_closure:
  assumes "heap_ok h"
    and "T \<in> {''subject'', ''session'', ''acquisition''}"
    and "create_metadata_dict sha1 h origin_container T container_config = Inr (meta_dict, h')"
  shows "\<exists>allowed kvs. META_WHITELIST_DICT T = Some allowed \<and> as_dict h' meta_dict = Some kvs
           \<and> set (map fst kvs) \<subseteq> set allowed \<union> {''info''}"
proof -
  from assms(2) obtain allowed where f: "META_WHITELIST_DICT T = Some allowed"
    by (auto simp: META_WHITELIST_DICT_def)
  from create_metadata_dict_effect[OF assms(1) assms(3)] f show ?thesis by auto
qed

theorem whitelist_closure_witness:
  "heap_ok example_config_heap \<and> ''session'' \<in> {''subject'', ''session'', ''acquisition''}
   \<and> create_metadata_dict example_sha1 example_config_heap (PRef 0) ''session'' (PRef 2)
       = Inr (PRef 5, example_result_heap)
   \<and> (\<exists>allowed kvs. META_WHITELIST_DICT ''session'' = Some allowed
         \<and> as_dict example_result_heap (PRef 5) = Some kvs
         \<and> set (map fst kvs) \<subseteq> set allowed \<union> {''info''})"
proof -
  have ok: "heap_ok example_config_heap" by code_simp
  have t: "''session'' \<in> {''subject'', ''session'', ''acquisition''}" by simp
  from whitelist_closure[OF ok t example_run] ok t example_run show ?thesis by blast
qed



text \<open>
  Claim C5 (no side effects) does not hold of the code. With the info whitelist
  \<^verbatim>\<open>'All'\<close> the payload's \<^verbatim>\<open>'info'\<close> is the origin's own info object, and the stamp
  is written into it: after the call the origin's info holds
  \<^verbatim>\<open>'export': {'origin_id': ...}\<close> in place of \<^verbatim>\<open>'export': 'old'\<close>. The
  configuration's metadata list has grown by \<^verbatim>\<open>'info'\<close> as well.
\<close>

theorem origin_info_mutated:
  "create_metadata_dict example_sha1 example_config_heap (PRef 0) ''session'' (PRef 2)
     = Inr (PRef 5, example_result_heap)
   \<and> as_dict example_config_heap (PRef 1) = Some [(''a'', PInt 1), (''export'', PStr ''old'')]
   \<and> as_dict example_result_heap (PRef 1) = Some [(''a'', PInt 1), (''export'', PRef 9)]
   \<and> as_list example_config_heap (PRef 4) = Some [PStr ''age'', PStr ''label'', PStr ''operator'']
   \<and> as_list example_result_heap (PRef 4)
       = Some [PStr ''age'', PStr ''label'', PStr ''operator'', PStr ''info'']"
  using example_run by (simp add: example_config_heap_def example_result_heap_def obj_at_def)

lemma export_file_loop_list:
  "export_file_loop oc dc fd (JList types) ow fs =
     Inr (map (\<lambda>f. \<lparr>fe_origin_parent = oc, fe_origin_filename = file_name f, fe_dest_parent = dc,
                     fe_filename = fd (file_name f), fe_overwrite = ow\<rparr>)
            (filter (\<lambda>f. (case file_type f of Some s \<Rightarrow> JStr s | None \<Rightarrow> JNull) \<in> set types) fs))"
  by (induction fs) (simp_all add: type_in_def and_then_simps)

subsection \<open>The file export initializer\<close>

text \<open>
  Claim C7. For a list of file types, \<^verbatim>\<open>initialize_container_file_export\<close> returns one
  job for every file of the origin container whose type is in the list, in the order of
  the files, and the destination filename of the job of a file \<open>f\<close> is
  \<^verbatim>\<open>filename_dict[f.name]\<close> if the name is a key of the dictionary, and \<^verbatim>\<open>f.name\<close>
  otherwise (the code passes \<^verbatim>\<open>None\<close> to the job for a name that is not a key).
\<close>

theorem file_export_jobs:
  "\<exists>jobs. initialize_container_file_export origin_container dest_container filename_dict
              (JList types) overwrite = Inr jobs
      \<and> map fe_origin_filename jobs =
          map file_name
            (filter (\<lambda>f. (case file_type f of Some s \<Rightarrow> JStr s | None \<Rightarrow> JNull) \<in> set types)
               (files origin_container))
      \<and> map export_filename jobs =
          map (\<lambda>f. case filename_dict (file_name f) of Some n \<Rightarrow> n | None \<Rightarrow> file_name f)
            (filter (\<lambda>f. (case file_type f of Some s \<Rightarrow> JStr s | None \<Rightarrow> JNull) \<in> set types)
               (files origin_container))"
  by (simp add: initialize_container_file_export_def export_file_loop_list export_filename_def comp_def
      split: option.splits)

theorem file_export_jobs_witness:
  "\<exists>jobs. initialize_container_file_export (example_store ! 4) (example_store ! 6)
              [''scan.dcm'' \<mapsto> ''anon.dcm''] (JList [JStr ''dicom'', JStr ''nifti'']) False = Inr jobs
      \<and> map fe_origin_filename jobs = [''scan.dcm'', ''scan.nii'']
      \<and> map export_filename jobs = [''anon.dcm'', ''scan.nii'']"
  using file_export_jobs [of "example_store ! 4" "example_store ! 6" "[''scan.dcm'' \<mapsto> ''anon.dcm'']"
      "[JStr ''dicom'', JStr ''nifti'']" False]
  by (simp add: example_store_def)

subsection \<open>The export driver without a subject table\<close>

lemma get_container_cid: "get_container st i = Inr c \<Longrightarrow> cid c = i"
  by (auto simp: get_container_def find_Some_iff split: option.splits)

lemma get_container_reload:
  "get_container st i = Inr c \<Longrightarrow> and_then (get_container st i) (\<lambda>c. get_container st (cid c)) = Inr c"
  by (frule get_container_cid) (simp add: and_then_simps)

lemma export_subject_sessions_unbound:
  "export_subject_sessions w d csv ow path None m pf sf n sessions =
     (if sessions = [] then (Inr n, m) else (Inl NameError, m))"
  by (cases sessions) simp_all

lemma inner_export_subject_no_table:
  "inner_export_subject w d tp csv ow None tobj ls m subj pf =
     (if children (m_store m) ''session'' (cid subj) = [] then Inr 0 else Inl NameError,
      m\<lparr>m_removed := m_removed m @ [mkdtemp w (length (m_removed m))]\<rparr>)"
  by (simp add: inner_export_subject_def export_subject_sessions_unbound)

lemma export_project_subjects_no_table:
  "\<exists>m'. export_project_subjects w d tp csv ow None tobj m pf n subjects =
          (if \<exists>s \<in> set subjects. children (m_store m) ''session'' (cid s) \<noteq> [] then Inl NameError
           else Inr n, m')
      \<and> m_store m' = m_store m \<and> m_calls m' = m_calls m \<and> m_csv m' = m_csv m"
proof (induction subjects arbitrary: m pf n)
  case Nil
  then show ?case by simp
next
  case (Cons s subjects)
  let ?m1 = "m\<lparr>m_removed := m_removed m @ [mkdtemp w (length (m_removed m))]\<rparr>"
  show ?case
  proof (cases "children (m_store m) ''session'' (cid s) = []")
    case True
    from Cons.IH[of ?m1 False "n + 0"] True show ?thesis
      by (auto simp: inner_export_subject_no_table)
  next
    case False
    then show ?thesis by (auto simp: inner_export_subject_no_table)
  qed
qed

text \<open>
  Claim C9. Without \<^verbatim>\<open>subject_csv_path\<close> no table of subject codes exists, the variable
  that holds the template's error message is never bound, and \<^verbatim>\<open>export_container\<close>
  raises \<^verbatim>\<open>NameError\<close>: for a session always, for a subject that has a session, for a
  project one of whose subjects has a session (the container and the template being
  there). Nothing was exported: \<^verbatim>\<open>_export_session\<close> was not called, the store and the
  report are as before.
\<close>

theorem no_csv_name_error:
  assumes "get_container (m_store m) container_id = Inr container"
    and "load_template_file w (m_removed m) template_path = Inr template_obj"
    and "ctype container = ''session''
         \<or> (ctype container = ''subject'' \<and> children (m_store m) ''session'' (cid container) \<noteq> [])
         \<or> (ctype container = ''project''
             \<and> (\<exists>s \<in> set (children (m_store m) ''subject'' (cid container)).
                   children (m_store m) ''session'' (cid s) \<noteq> []))"
  shows "\<exists>m'. export_container w m container_id dest_proj_id template_path csv_output_path overwrite None
               = (Inl NameError, m')
          \<and> m_calls m' = m_calls m \<and> m_store m' = m_store m \<and> m_csv m' = m_csv m"
proof -
  note r = get_container_reload[OF assms(1)]
  consider (session) "ctype container = ''session''"
    | (subject) "ctype container = ''subject''" "children (m_store m) ''session'' (cid container) \<noteq> []"
    | (project) "ctype container = ''project''"
        "\<exists>s \<in> set (children (m_store m) ''subject'' (cid container)).
            children (m_store m) ''session'' (cid s) \<noteq> []"
    using assms(3) by blast
  then show ?thesis
  proof cases
    case session
    then show ?thesis by (simp add: export_container_def r assms(2))
  next
    case subject
    then show ?thesis by (simp add: export_container_def r assms(2) inner_export_subject_no_table)
  next
    case project
    from export_project_subjects_no_table[of w dest_proj_id template_path csv_output_path overwrite
        template_obj m True 0 "children (m_store m) ''subject'' (cid container)"] project
    show ?thesis by (auto simp: export_container_def r assms(2))
  qed
qed

theorem no_csv_name_error_witness:
  "get_container (m_store example_machine) ''p1'' = Inr (example_store ! 0)
   \<and> load_template_file example_world (m_removed example_machine) ''/t/basic.yaml'' = Inr example_template
   \<and> ctype (example_store ! 0) = ''project''
   \<and> (\<exists>s \<in> set (children (m_store example_machine) ''subject'' (cid (example_store ! 0))).
         children (m_store example_machine) ''session'' (cid s) \<noteq> [])
   \<and> (\<exists>m'. export_container example_world example_machine ''p1'' ''p2'' ''/t/basic.yaml''
               (Some ''report.csv'') False None = (Inl NameError, m')
          \<and> m_calls m' = m_calls example_machine \<and> m_store m' = m_store example_machine
          \<and> m_csv m' = m_csv example_machine)"
proof -
  have g: "get_container (m_store example_machine) ''p1'' = Inr (example_store ! 0)"
    by code_simp
  have l: "load_template_file example_world (m_removed example_machine) ''/t/basic.yaml''
             = Inr example_template"
    by code_simp
  have t: "ctype (example_store ! 0) = ''project''"
    by code_simp
  have s: "\<exists>s \<in> set (children (m_store example_machine) ''subject'' (cid (example_store ! 0))).
             children (m_store example_machine) ''session'' (cid s) \<noteq> []"
    by code_simp
  from t s have scope: "ctype (example_store ! 0) = ''session''
         \<or> (ctype (example_store ! 0) = ''subject''
             \<and> children (m_store example_machine) ''session'' (cid (example_store ! 0)) \<noteq> [])
         \<or> (ctype (example_store ! 0) = ''project''
             \<and> (\<exists>s \<in> set (children (m_store example_machine) ''subject'' (cid (example_store ! 0))).
                   children (m_store example_machine) ''session'' (cid s) \<noteq> []))"
    by blast
  from no_csv_name_error[OF g l scope, of "''p2''" "Some ''report.csv''" False] g l t s
  show ?thesis by blast
qed

subsection \<open>Runs of the example\<close>

text \<open>
  Claim C6 does not hold of the code for acquisitions. With the configuration
  \<^verbatim>\<open>{'label': 'anon'}\<close>, \<^verbatim>\<open>find_or_create_session_acquisition\<close> creates the acquisition
  under the origin's label \<^verbatim>\<open>T1\<close>; \<^verbatim>\<open>find_or_create_subject_session\<close>, given the same
  configuration, creates the session under the label \<^verbatim>\<open>anon\<close>.
\<close>

theorem acquisition_label_not_overridden:
  "(case find_or_create_session_acquisition example_env (snd (load example_acquisition_config []))
           example_store ''a1'' ''e2'' (fst (load example_acquisition_config [])) of
      Inl e \<Rightarrow> None
    | Inr (c, h, st) \<Rightarrow> Some (attr c ''label'')) = Some (JStr ''T1'')
   \<and> (case find_or_create_subject_session example_env (snd (load example_acquisition_config []))
           example_store ''e1'' ''s0'' (fst (load example_acquisition_config [])) of
      Inl e \<Rightarrow> None
    | Inr (c, h, st) \<Rightarrow> Some (attr c ''label'')) = Some (JStr ''anon'')"
  by code_simp

text \<open>
  Claim C2 does not hold of the code. Without a subject table the export of a session
  or of a subject raises \<^verbatim>\<open>NameError\<close> (the defect of claim C9); with a table and the
  template \<^verbatim>\<open>parrec.yaml\<close>, for which no file is exported, it raises \<^verbatim>\<open>TypeError\<close>
  (the defect of claim C10). With a table and \<^verbatim>\<open>basic.yaml\<close> it returns 1: the failed
  transfer of \<^verbatim>\<open>scan.dcm\<close> is counted and nothing is raised.
\<close>

theorem export_container_raises:
  "fst (export_container example_world example_machine ''e1'' ''p2'' ''/t/basic.yaml''
          (Some ''report.csv'') False None) = Inl NameError
   \<and> fst (export_container example_world example_machine ''s1'' ''p2'' ''/t/basic.yaml''
          (Some ''report.csv'') False None) = Inl NameError
   \<and> fst (export_container example_world example_machine ''s1'' ''p2'' ''/t/parrec.yaml''
          (Some ''report.csv'') False (Some ''codes.csv'')) = Inl TypeError
   \<and> fst (export_container example_world example_machine ''s1'' ''p2'' ''/t/basic.yaml''
          (Some ''report.csv'') False (Some ''codes.csv'')) = Inr 1"
  by code_simp

subsection \<open>The files of the project in the export of a project\<close>

text \<open>
  Claim C8 does not hold of the code. In the export of a project \<^verbatim>\<open>export_container\<close>
  sets \<^verbatim>\<open>project_files = False\<close> after the first subject (line 655), whether or not
  that subject had a session to carry them, while \<^verbatim>\<open>_export_subject\<close> clears its flags
  only after a session was exported (lines 643 and 644). The first subject of the example project has no session, and the project has a
  file of type \<^verbatim>\<open>dicom\<close>, which the template allows (it names no file types, so the
  default holds). The export returns; its calls of \<^verbatim>\<open>_export_session\<close> are for the two
  sessions of the second subject, both with \<^verbatim>\<open>project_files=False\<close>, the first with
  \<^verbatim>\<open>subject_files=True\<close>; no row of the report is for a file of the project, so the
  project's files are in no session's job list.
\<close>

theorem project_files_never_exported:
  "fst example_project_run = Inr 1
   \<and> map cid (children example_store ''subject'' ''p1'') = [''s0'', ''s1'']
   \<and> children example_store ''session'' ''s0'' = []
   \<and> map file_type (files (example_store ! 0)) = [Some ''pdf'', Some ''dicom'']
   \<and> cid (example_store ! 0) = ''p1''
   \<and> json_path example_template [''export'', ''file_types''] = None
   \<and> map call_session_id (m_calls (snd example_project_run)) = [''e1'', ''e2'']
   \<and> map call_project_files (m_calls (snd example_project_run)) = [False, False]
   \<and> map call_subject_files (m_calls (snd example_project_run)) = [True, False]
   \<and> filter (\<lambda>row. map_of row ''origin_parent'' = Some (JStr ''p1''))
        (concat (map snd (m_csv (snd example_project_run)))) = []"
  by code_simp

subsection \<open>A session without a file to export\<close>

lemma store_grows_refl: "store_grows st st"
  by (auto simp: store_grows_def)

lemma store_grows_trans:
  assumes "store_grows st st'" "store_grows st' st''"
  shows "store_grows st st''"
  unfolding store_grows_def
proof (intro conjI ballI)
  from assms have "cid ` set st \<subseteq> cid ` set st'" "cid ` set st' \<subseteq> cid ` set st''"
    by (simp_all add: store_grows_def)
  then show "cid ` set st \<subseteq> cid ` set st''"
    by (rule subset_trans)
next
  fix c'' assume c'': "c'' \<in> set st''"
  from assms(2) c'' consider
      (new) "cid c'' \<notin> cid ` set st'" "files c'' = []"
    | (old) c' where "c' \<in> set st'" "cid c' = cid c''" "ctype c' = ctype c''"
        "parent_id c' = parent_id c''" "files c' = files c''"
    by (auto simp: store_grows_def)
  then show "(cid c'' \<notin> cid ` set st \<and> files c'' = [])
            \<or> (\<exists>c \<in> set st. cid c = cid c'' \<and> ctype c = ctype c'' \<and> parent_id c = parent_id c''
                   \<and> files c = files c'')"
  proof cases
    case new
    with assms(1) show ?thesis by (auto simp: store_grows_def)
  next
    case old
    from assms(1) old(1) consider
        (new') "cid c' \<notin> cid ` set st" "files c' = []"
      | (old') c where "c \<in> set st" "cid c = cid c'" "ctype c = ctype c'"
          "parent_id c = parent_id c'" "files c = files c'"
      by (auto simp: store_grows_def)
    then show ?thesis
    proof cases
      case new'
      with old show ?thesis by simp
    next
      case old'
      with old show ?thesis by (intro disjI2 bexI[of _ c]) simp_all
    qed
  qed
qed

lemma fresh_id_length: "c \<in> set st \<Longrightarrow> length (cid c) < length (fresh_id st)"
  by (induction st) (auto simp: fresh_id_def)

lemma fresh_id_notin: "fresh_id st \<notin> cid ` set st"
proof
  assume "fresh_id st \<in> cid ` set st"
  then obtain c where "c \<in> set st" "cid c = fresh_id st"
    by (auto simp: image_iff)
  with fresh_id_length[of c st] show False
    by simp
qed

lemma store_grows_add_child: "add_child st t p kvs = (c, st') \<Longrightarrow> store_grows st st'"
  using fresh_id_notin[of st] by (auto simp: add_child_def store_grows_def Let_def)

lemma update_container_ids: "map cid (update_container st i payload) = map cid st"
  by (simp add: update_container_def)

lemma store_grows_update: "store_grows st (update_container st i payload)"
  unfolding store_grows_def
proof (intro conjI ballI)
  have "cid ` set (update_container st i payload) = set (map cid (update_container st i payload))"
    by simp
  also have "\<dots> = cid ` set st"
    by (simp only: update_container_ids) simp
  finally show "cid ` set st \<subseteq> cid ` set (update_container st i payload)"
    by simp
next
  fix c' assume "c' \<in> set (update_container st i payload)"
  then obtain c where c: "c \<in> set st"
      "c' = (if cid c = i then c\<lparr>attrs := merge_fields (attrs c) payload\<rparr> else c)"
    by (auto simp: update_container_def)
  then have "cid c = cid c' \<and> ctype c = ctype c' \<and> parent_id c = parent_id c' \<and> files c = files c'"
    by simp
  with c(1) show "(cid c' \<notin> cid ` set st \<and> files c' = [])
            \<or> (\<exists>c \<in> set st. cid c = cid c' \<and> ctype c = ctype c' \<and> parent_id c = parent_id c'
                   \<and> files c = files c')"
    by blast
qed


lemma add_with_metadata_grows:
  "add_with_metadata h st t p named md = Inr (c, st') \<Longrightarrow> store_grows st st'"
  by (auto simp: add_with_metadata_def and_then_Inr split: if_splits option.splits
           dest: store_grows_add_child)

lemma update_with_metadata_grows:
  "update_with_metadata h st c md = Inr st' \<Longrightarrow> store_grows st st'"
  by (auto simp: update_with_metadata_def and_then_Inr store_grows_update)

lemma find_or_create_subject_grows:
  assumes "find_or_create_subject env h st os dp cfg = Inr (c, h', st')"
  shows "store_grows st st'"
proof -
  obtain config h1 where a: "config_or_empty h cfg = (config, h1)"
    by force
  obtain origin where o: "get_container st os = Inr origin"
    using assms by (auto simp: find_or_create_subject_def and_then_Inr)
  obtain code h2 where b: "load (attr origin ''code'') h1 = (code, h2)"
    by force
  from assms o show ?thesis
    by (auto simp: find_or_create_subject_def and_then_Inr a b
             split: option.splits
             dest: add_with_metadata_grows update_with_metadata_grows)
qed

lemma find_or_create_subject_session_grows:
  assumes "find_or_create_subject_session env h st os dp cfg = Inr (c, h', st')"
  shows "store_grows st st'"
proof -
  obtain config h1 where a: "config_or_empty h cfg = (config, h1)"
    by force
  obtain origin where o: "get_container st os = Inr origin"
    using assms by (auto simp: find_or_create_subject_session_def and_then_Inr)
  obtain code h2 where b: "load (attr origin ''label'') h1 = (code, h2)"
    by force
  from assms o show ?thesis
    by (auto simp: find_or_create_subject_session_def and_then_Inr a b
             split: option.splits
             dest: add_with_metadata_grows update_with_metadata_grows)
qed

lemma find_or_create_session_acquisition_grows:
  assumes "find_or_create_session_acquisition env h st os dp cfg = Inr (c, h', st')"
  shows "store_grows st st'"
proof -
  obtain config h1 where a: "config_or_empty h cfg = (config, h1)"
    by force
  obtain origin where o: "get_container st os = Inr origin"
    using assms by (auto simp: find_or_create_session_acquisition_def and_then_Inr)
  obtain code h2 where b: "load (attr origin ''label'') h1 = (code, h2)"
    by force
  from assms o show ?thesis
    by (auto simp: find_or_create_session_acquisition_def and_then_Inr a b
             split: option.splits
             dest: add_with_metadata_grows update_with_metadata_grows)
qed


lemma no_jobs_grows:
  assumes "store_grows st st'" "no_jobs_at ft ids st"
  shows "no_jobs_at ft ids st'"
  unfolding no_jobs_at_def
proof (intro ballI impI)
  fix c' assume c': "c' \<in> set st'" "cid c' \<in> set ids"
  from assms(1) c'(1) consider "files c' = []"
    | c where "c \<in> set st" "cid c = cid c'" "files c = files c'"
    by (auto simp: store_grows_def)
  then show "no_job ft c'"
  proof cases
    case 1
    then show ?thesis by (simp add: no_job_def)
  next
    case 2
    with assms(2) c'(2) have "no_job ft c" by (simp add: no_jobs_at_def)
    with 2 show ?thesis by (simp add: no_job_def)
  qed
qed

lemma no_jobs_children:
  assumes "store_grows st st'" "no_jobs_at ft (map cid (children st t p)) st"
  shows "no_jobs_at ft (map cid (children st' t p)) st'"
  unfolding no_jobs_at_def
proof (intro ballI impI)
  fix c' assume c': "c' \<in> set st'" "cid c' \<in> set (map cid (children st' t p))"
  then obtain a where a: "a \<in> set st'" "ctype a = t" "parent_id a = p" "cid a = cid c'"
    by (auto simp: children_def)
  from assms(1) c'(1) consider "files c' = []"
    | c where "c \<in> set st" "cid c = cid c'" "files c = files c'"
    by (auto simp: store_grows_def)
  then show "no_job ft c'"
  proof cases
    case 1
    then show ?thesis by (simp add: no_job_def)
  next
    case 2
    then have "cid a \<in> cid ` set st"
      using a(4) by (metis imageI)
    with assms(1) a(1) obtain a0 where "a0 \<in> set st" "cid a0 = cid a" "ctype a0 = ctype a"
        "parent_id a0 = parent_id a"
      by (auto simp: store_grows_def)
    with a have "cid c' \<in> set (map cid (children st t p))"
      by (auto simp: children_def intro!: image_eqI[of _ _ a0])
    with assms(2) 2 have "no_job ft c" by (simp add: no_jobs_at_def)
    with 2 show ?thesis by (simp add: no_job_def)
  qed
qed

lemma no_jobs_subset: "no_jobs_at ft ids st \<Longrightarrow> set ids' \<subseteq> set ids \<Longrightarrow> no_jobs_at ft ids' st"
  by (auto simp: no_jobs_at_def)

lemma export_file_loop_none:
  "\<forall>f \<in> set fs. type_in (file_type f) ft = Inr False \<Longrightarrow> export_file_loop oc dc fd ft ow fs = Inr []"
  by (induction fs) (simp_all add: and_then_simps)

lemma no_job_export: "no_job ft c \<Longrightarrow> initialize_container_file_export c d fd ft ow = Inr []"
  by (simp add: initialize_container_file_export_def no_job_def export_file_loop_none)

lemma get_container_mem: "get_container st i = Inr c \<Longrightarrow> c \<in> set st"
  by (auto simp: get_container_def find_Some_iff split: option.splits)

lemma no_jobs_get:
  "no_jobs_at ft ids st \<Longrightarrow> get_container st i = Inr c \<Longrightarrow> i \<in> set ids \<Longrightarrow> no_job ft c"
  using get_container_mem[of st i c] get_container_cid[of st i c] by (auto simp: no_jobs_at_def)

lemma bind_store_Inr:
  "(bind_store m f = (Inr y, st')) = (\<exists>x st1. m = (Inr x, st1) \<and> f x st1 = (Inr y, st'))"
  by (cases m; cases "fst m") (auto simp: bind_store_def)

lemma matched_Inr: "(matched st m = (Inr (c, h), st')) = (m = Inr (c, h, st'))"
  by (cases m) (auto simp: matched_def)

lemma find_or_create_dest_subject_grows:
  assumes "find_or_create_dest_subject env h se st = (Inr (se', h'), st')"
  shows "store_grows st st' \<and> (\<exists>d. se' = se\<lparr>se_dest_subject := d\<rparr>)"
proof (cases "se_dest_subject se \<noteq> None")
  case True
  with assms have "se' = se" "st' = st" by (simp_all add: find_or_create_dest_subject_def)
  then show ?thesis by (auto simp: store_grows_refl intro: exI[of _ "se_dest_subject se"])
next
  case False
  with assms show ?thesis
    by (auto simp: find_or_create_dest_subject_def bind_store_Inr matched_Inr
             dest: find_or_create_subject_grows)
qed

lemma find_or_create_dest_grows:
  assumes "find_or_create_dest env h se st = (Inr (se', h'), st')"
  shows "store_grows st st' \<and> (\<exists>d e. se' = se\<lparr>se_dest_subject := d, se_dest := e\<rparr>)"
proof (cases "se_dest se \<noteq> None")
  case True
  with assms have "se' = se" "st' = st" by (simp_all add: find_or_create_dest_def)
  moreover have "se = se\<lparr>se_dest_subject := se_dest_subject se, se_dest := se_dest se\<rparr>"
    by simp
  ultimately show ?thesis
    using store_grows_refl by blast
next
  case False
  with assms obtain se1 h1 st1 where
      one: "(if se_dest_subject se \<noteq> None then (Inr (se, h), st)
             else find_or_create_dest_subject env h se st) = (Inr (se1, h1), st1)"
    and two: "(case se_dest_subject se1 of
               None \<Rightarrow> (Inl AttributeError, st1)
             | Some dest_subject \<Rightarrow>
                 bind_store (py_get h1 (se_export_config se1) ''session'', st1)
                   (\<lambda>session_config st1.
                      bind_store
                        (matched st1
                           (find_or_create_subject_session env h1 st1 (cid (se_origin se1))
                              (cid dest_subject) session_config))
                        (\<lambda>(dest, h2) st2. (Inr (se1\<lparr>se_dest := Some dest\<rparr>, h2), st2))))
            = (Inr (se', h'), st')"
    by (auto simp: find_or_create_dest_def bind_store_Inr)
  from one have g1: "store_grows st st1" and s1: "\<exists>d. se1 = se\<lparr>se_dest_subject := d\<rparr>"
    using find_or_create_dest_subject_grows[of env h se st se1 h1 st1]
    by (auto simp: store_grows_refl split: if_splits intro: exI[of _ "se_dest_subject se"])
  from two have g2: "store_grows st1 st'" and s2: "\<exists>e. se' = se1\<lparr>se_dest := e\<rparr>"
    by (auto simp: bind_store_Inr matched_Inr split: option.splits
             dest: find_or_create_subject_session_grows)
  from g1 g2 have "store_grows st st'" by (rule store_grows_trans)
  moreover from s1 s2 have "\<exists>d e. se' = se\<lparr>se_dest_subject := d, se_dest := e\<rparr>"
    by auto
  ultimately show ?thesis ..
qed

lemma initialize_acquisition_files_none:
  assumes "initialize_acquisition_files env fd dest acqs h se st = (Inr (se', h'), st')"
    and "no_jobs_at (se_file_types se) (map cid acqs) st"
  shows "se_files se' = se_files se \<and> store_grows st st'"
  using assms
proof (induction acqs arbitrary: h se st)
  case Nil
  then show ?case by (simp add: store_grows_refl)
next
  case (Cons a rest)
  from Cons.prems(1) obtain origin_acq cfg dest_acq h1 st1 jobs where
      oa: "get_container st (cid a) = Inr origin_acq"
    and m: "find_or_create_session_acquisition env h st (cid origin_acq) (cid dest) cfg
              = Inr (dest_acq, h1, st1)"
    and j: "initialize_container_file_export origin_acq dest_acq fd (se_file_types se) False = Inr jobs"
    and r: "initialize_acquisition_files env fd dest rest h1 (se\<lparr>se_files := se_files se @ jobs\<rparr>) st1
              = (Inr (se', h'), st')"
    by (auto simp: bind_store_Inr matched_Inr)
  from Cons.prems(2) oa have "no_job (se_file_types se) origin_acq"
    by (rule no_jobs_get) simp
  with j have jobs: "jobs = []" by (simp add: no_job_export)
  from m have g: "store_grows st st1" by (rule find_or_create_session_acquisition_grows)
  from Cons.prems(2) have "no_jobs_at (se_file_types se) (map cid rest) st"
    by (rule no_jobs_subset) auto
  with g have "no_jobs_at (se_file_types se) (map cid rest) st1" by (rule no_jobs_grows)
  with Cons.IH[OF r] have "se_files se' = se_files se @ jobs \<and> store_grows st1 st'"
    by simp
  with jobs g show ?case by (auto intro: store_grows_trans)
qed


lemma initialize_files_none:
  assumes run: "initialize_files env sf pf fda h se st = (Inr (se', h'), st')"
    and clear: "no_jobs_at (se_file_types se)
                  (cid (se_origin se) # map cid (children st ''acquisition'' (cid (se_origin se)))
                     @ (if sf then [parent_id (se_origin se)] else [])
                     @ (if pf then [cid (se_origin_project se)] else [])) st"
    and snapshot: "no_job (se_file_types se) (se_origin se)"
  shows "se_files se' = se_files se"
proof -
  define ft where "ft = se_file_types se"
  define fd where "fd = (case fda of Some d \<Rightarrow> d | None \<Rightarrow> (\<lambda>n. None))"
  from run obtain se1 h1 st1 dest pl sl el origin where
      d: "find_or_create_dest env h se st = (Inr (se1, h1), st1)"
    and dest: "se_dest se1 = Some dest"
    and p: "(if pf then
               and_then (get_container st1 (cid (se_origin_project se1)))
                 (\<lambda>origin_project. and_then (get_container st1 (cid (se_dest_proj se1)))
                    (\<lambda>dest_proj.
                       initialize_container_file_export origin_project dest_proj fd
                         (se_file_types se1) False))
             else Inr []) = Inr pl"
    and s: "(if sf then
               and_then (get_container st1 (parent_id (se_origin se1)))
                 (\<lambda>origin_subject. and_then (get_container st1 (parent_id dest))
                    (\<lambda>dest_subject.
                       initialize_container_file_export origin_subject dest_subject
                         fd (se_file_types se1) False))
             else Inr []) = Inr sl"
    and e: "and_then (get_container st1 (cid dest))
              (\<lambda>dest_now.
                 initialize_container_file_export (se_origin se1) dest_now
                   fd (se_file_types se1) False) = Inr el"
    and o: "get_container st1 (cid (se_origin se1)) = Inr origin"
    and a: "initialize_acquisition_files env fd dest
              (children st1 ''acquisition'' (cid origin)) h1
              (se1\<lparr>se_origin := origin, se_files := se_files se1 @ pl @ sl @ el\<rparr>) st1
            = (Inr (se', h'), st')"
    unfolding initialize_files_def Let_def fd_def[symmetric]
    by (auto simp: bind_store_Inr split: option.splits)
  from find_or_create_dest_grows[OF d] obtain x y where
      g: "store_grows st st1" and se1: "se1 = se\<lparr>se_dest_subject := x, se_dest := y\<rparr>"
    by auto
  from se1 have same: "se_origin se1 = se_origin se" "se_file_types se1 = ft"
      "se_origin_project se1 = se_origin_project se" "se_files se1 = se_files se"
    by (simp_all add: ft_def)
  from clear g have c1: "no_jobs_at ft
                  (cid (se_origin se) # map cid (children st ''acquisition'' (cid (se_origin se)))
                     @ (if sf then [parent_id (se_origin se)] else [])
                     @ (if pf then [cid (se_origin_project se)] else [])) st1"
    unfolding ft_def by (rule no_jobs_grows[rotated])
  have pl: "pl = []"
  proof (cases pf)
    case False
    with p show ?thesis by simp
  next
    case True
    with p obtain op dp where op: "get_container st1 (cid (se_origin_project se)) = Inr op"
      and j: "initialize_container_file_export op dp fd ft False = Inr pl"
      by (auto simp: and_then_Inr same)
    from c1 op have "no_job ft op"
      by (rule no_jobs_get) (simp add: True)
    with j show ?thesis by (simp add: no_job_export)
  qed
  have sl: "sl = []"
  proof (cases sf)
    case False
    with s show ?thesis by simp
  next
    case True
    with s obtain os ds where os: "get_container st1 (parent_id (se_origin se)) = Inr os"
      and j: "initialize_container_file_export os ds fd ft False = Inr sl"
      by (auto simp: and_then_Inr same)
    from c1 os have "no_job ft os"
      by (rule no_jobs_get) (simp add: True)
    with j show ?thesis by (simp add: no_job_export)
  qed
  from e snapshot have el: "el = []"
    by (auto simp: and_then_Inr same no_job_export ft_def)
  from o have co: "cid origin = cid (se_origin se)"
    by (simp add: same get_container_cid)
  from clear have "no_jobs_at ft (map cid (children st ''acquisition'' (cid (se_origin se)))) st"
    unfolding ft_def by (rule no_jobs_subset) auto
  with g have "no_jobs_at ft (map cid (children st1 ''acquisition'' (cid (se_origin se)))) st1"
    by (rule no_jobs_children)
  with initialize_acquisition_files_none[OF a] show ?thesis
    by (simp add: pl sl el co same)
qed


lemma template_file_types_dict:
  "template_file_types (JDict kvs) =
     (case map_of (case (case map_of kvs ''export'' of Some v \<Rightarrow> v | None \<Rightarrow> JDict []) of
                     JDict c \<Rightarrow> c | _ \<Rightarrow> []) ''file_types'' of
        Some v \<Rightarrow> v | None \<Rightarrow> JList [JStr ''dicom''])"
  by (simp add: template_file_types_def split: option.splits json.splits)

lemma session_exporter_init_None:
  assumes "session_exporter_init h st os d cfg None = Inr (se, h')"
    and "get_container st i = Inr os"
  shows "se_files se = []" "se_origin se = os" "get_project_of st os = Inr (se_origin_project se)"
    "se_file_types se =
       (case map_of (case cfg of JDict c \<Rightarrow> c | _ \<Rightarrow> []) ''file_types'' of
          Some v \<Rightarrow> v | None \<Rightarrow> JList [JStr ''dicom''])"
proof -
  obtain config h1 where l: "load (JDict (case cfg of JDict c \<Rightarrow> c | _ \<Rightarrow> [])) h = (config, h1)"
    by force
  from assms(2) have r: "get_container st (cid os) = Inr os"
    by (frule_tac get_container_cid) simp
  from assms(1) show "se_files se = []" "se_origin se = os"
    "get_project_of st os = Inr (se_origin_project se)"
    "se_file_types se =
       (case map_of (case cfg of JDict c \<Rightarrow> c | _ \<Rightarrow> []) ''file_types'' of
          Some v \<Rightarrow> v | None \<Rightarrow> JList [JStr ''dicom''])"
    unfolding session_exporter_init_def Let_def l
    by (auto simp: and_then_Inr r)
qed

lemma export_session_None:
  assumes t: "load_template_file w (m_removed m) tp = Inr template"
    and o: "get_container (m_store m) sid = Inr os"
    and clear: "no_jobs_at (template_file_types template) (scope_ids (m_store m) os sf pf) (m_store m)"
    and run: "export_session w m sid d tp sf pf csv ow = (Inr r, m')"
  shows "r = None"
proof -
  from run t obtain kvs where k: "template = JDict kvs"
    by (cases template) (auto simp: export_session_def)
  define cfg where "cfg = (case map_of kvs ''export'' of Some v \<Rightarrow> v | None \<Rightarrow> JDict [])"
  from run t k o have "\<exists>se h se' h' st'.
      session_exporter_init [] (m_store m) os d cfg None = Inr (se, h)
      \<and> initialize_files (base w) sf pf None h se (m_store m) = (Inr (se', h'), st')
      \<and> r = (if length (exporter_local_file_export w se' tp ow) \<ge> 1
               then Some (exporter_local_file_export w se' tp ow) else None)"
    by (auto simp: export_session_def Let_def and_then_simps cfg_def
        split: sum.splits prod.splits if_splits)
  then obtain se h se' h' st' where
      i: "session_exporter_init [] (m_store m) os d cfg None = Inr (se, h)"
    and f: "initialize_files (base w) sf pf None h se (m_store m) = (Inr (se', h'), st')"
    and r: "r = (if length (exporter_local_file_export w se' tp ow) \<ge> 1
                 then Some (exporter_local_file_export w se' tp ow) else None)"
    by blast
  note init = session_exporter_init_None[OF i o]
  have ft: "se_file_types se = template_file_types template"
    by (simp add: init(4) k template_file_types_dict cfg_def)
  have ids: "cid (se_origin se) # map cid (children (m_store m) ''acquisition'' (cid (se_origin se)))
                     @ (if sf then [parent_id (se_origin se)] else [])
                     @ (if pf then [cid (se_origin_project se)] else [])
             = scope_ids (m_store m) os sf pf"
    by (simp add: scope_ids_def init)
  have "cid os \<in> set (scope_ids (m_store m) os sf pf)"
    unfolding scope_ids_def by (rule list.set_intros(1))
  then have "sid \<in> set (scope_ids (m_store m) os sf pf)"
    by (simp only: get_container_cid[OF o])
  then have "no_job (se_file_types se) os"
    using no_jobs_get[OF clear o] by (simp add: ft)
  then have snapshot: "no_job (se_file_types se) (se_origin se)"
    by (simp only: init(2))
  have clear': "no_jobs_at (se_file_types se)
                  (cid (se_origin se) # map cid (children (m_store m) ''acquisition'' (cid (se_origin se)))
                     @ (if sf then [parent_id (se_origin se)] else [])
                     @ (if pf then [cid (se_origin_project se)] else [])) (m_store m)"
    using clear by (simp only: ids ft)
  from initialize_files_none[OF f clear' snapshot] have "se_files se' = []"
    by (simp only: init(1))
  with r show ?thesis
    by (simp add: exporter_local_file_export_def)
qed

lemma export_session_fst_calls:
  "fst (export_session w (m\<lparr>m_calls := cs\<rparr>) sid d tp sf pf csv ow)
     = fst (export_session w m sid d tp sf pf csv ow)"
  by (auto simp: export_session_def Let_def
      split: sum.splits prod.splits option.splits json.splits)


text \<open>
  Claim C10. Let the template load, and let no file of the origin session, of its
  acquisitions, of its subject (if the subject's files are asked for) and of its
  project (if the project's files are asked for) have a type that is in the list of file
  types of the template. Then \<^verbatim>\<open>export_session\<close>, if it returns, returns \<^verbatim>\<open>None\<close>; and
  its caller \<^verbatim>\<open>_export_session\<close>, which subscripts the result with \<^verbatim>\<open>'state'\<close> before
  it tests what the result is, raises: the exception of \<^verbatim>\<open>export_session\<close> if that
  raised, a \<^verbatim>\<open>TypeError\<close> if it returned.
\<close>

theorem session_without_jobs_gives_None:
  assumes "load_template_file w (m_removed m) template_path = Inr template"
    and "get_container (m_store m) origin_session_id = Inr origin_session"
    and "no_jobs_at (template_file_types template)
           (scope_ids (m_store m) origin_session subject_files project_files) (m_store m)"
    and "sess_error_msg = None \<or> sess_error_msg = Some []"
  shows "(\<forall>r m'. export_session w m origin_session_id dest_proj_id template_path subject_files
                   project_files csv_output_path overwrite = (Inr r, m') \<longrightarrow> r = None)
       \<and> fst (inner_export_session w dest_proj_id csv_output_path overwrite m origin_session_id
                template_path project_files subject_files sess_error_msg)
           = (case fst (export_session w m origin_session_id dest_proj_id template_path subject_files
                          project_files None overwrite) of
                Inl e \<Rightarrow> Inl e | Inr r \<Rightarrow> Inl TypeError)"
proof (intro conjI allI impI)
  fix r m'
  assume "export_session w m origin_session_id dest_proj_id template_path subject_files
            project_files csv_output_path overwrite = (Inr r, m')"
  with assms(1-3) show "r = None" by (rule export_session_None)
next
  define m1 where "m1 = m\<lparr>m_calls := m_calls m @
                  [\<lparr>call_session_id = origin_session_id, call_template_path = template_path,
                    call_project_files = project_files, call_subject_files = subject_files,
                    call_error_msg = sess_error_msg\<rparr>]\<rparr>"
  have same: "m_store m1 = m_store m" "m_removed m1 = m_removed m"
    by (simp_all add: m1_def)
  obtain res m2 where run: "export_session w m1 origin_session_id dest_proj_id template_path
                              subject_files project_files None overwrite = (res, m2)"
    by force
  have inner: "fst (inner_export_session w dest_proj_id csv_output_path overwrite m origin_session_id
                template_path project_files subject_files sess_error_msg)
               = (case res of Inl e \<Rightarrow> Inl e
                  | Inr session_df \<Rightarrow>
                      (case state_error_count session_df of Inl e \<Rightarrow> Inl e | Inr n \<Rightarrow> Inr n))"
    using assms(4) run
    by (auto simp: inner_export_session_def m1_def[symmetric] split: sum.splits)
  have "fst (export_session w m origin_session_id dest_proj_id template_path subject_files
               project_files None overwrite) = res"
    using export_session_fst_calls[where m = m and cs = "m_calls m1" and w = w
            and sid = origin_session_id and d = dest_proj_id and tp = template_path
            and sf = subject_files and pf = project_files and csv = None and ow = overwrite] run
    by (simp add: m1_def)
  moreover have "(case res of Inl e \<Rightarrow> Inl e
                  | Inr session_df \<Rightarrow>
                      (case state_error_count session_df of Inl e \<Rightarrow> Inl e | Inr n \<Rightarrow> Inr n))
                 = (case res of Inl e \<Rightarrow> Inl e | Inr r \<Rightarrow> Inl TypeError)"
  proof (cases res)
    case (Inl e)
    then show ?thesis by simp
  next
    case (Inr session_df)
    with run assms(1-3) have "session_df = None"
      using export_session_None[of w m1 template_path template origin_session_id origin_session
              subject_files project_files dest_proj_id None overwrite session_df m2]
      by (simp add: same)
    with Inr show ?thesis by (simp add: state_error_count_def)
  qed
  ultimately show "fst (inner_export_session w dest_proj_id csv_output_path overwrite m origin_session_id
                template_path project_files subject_files sess_error_msg)
           = (case fst (export_session w m origin_session_id dest_proj_id template_path subject_files
                          project_files None overwrite) of
                Inl e \<Rightarrow> Inl e | Inr r \<Rightarrow> Inl TypeError)"
    using inner by simp
qed

theorem session_without_jobs_gives_None_witness:
  "fst (export_session example_world example_machine ''e1'' ''p2'' ''/t/parrec.yaml'' True True
          (Some ''report.csv'') False) = Inr None
   \<and> fst (inner_export_session example_world ''p2'' (Some ''report.csv'') False example_machine ''e1''
            ''/t/parrec.yaml'' True True None) = Inl TypeError"
proof -
  have t: "load_template_file example_world (m_removed example_machine) ''/t/parrec.yaml''
             = Inr example_template_parrec"
    by code_simp
  have g: "get_container (m_store example_machine) ''e1'' = Inr (example_store ! 3)"
    by code_simp
  have c: "no_jobs_at (template_file_types example_template_parrec)
             (scope_ids (m_store example_machine) (example_store ! 3) True True)
             (m_store example_machine)"
    by code_simp
  let ?run = "export_session example_world example_machine ''e1'' ''p2'' ''/t/parrec.yaml'' True True
               (Some ''report.csv'') False"
  let ?run' = "export_session example_world example_machine ''e1'' ''p2'' ''/t/parrec.yaml'' True True
               None False"
  note inst = session_without_jobs_gives_None[OF t g c, where sess_error_msg = None
        and dest_proj_id = "''p2''" and csv_output_path = "Some ''report.csv''" and overwrite = False]
  have "\<not> isl (fst ?run)"
    by code_simp
  then obtain r where r: "fst ?run = Inr r"
    by (cases "fst ?run") simp_all
  then have "?run = (Inr r, snd ?run)"
    by (simp add: prod_eq_iff)
  with inst have "r = None"
    by blast
  have "\<not> isl (fst ?run')"
    by code_simp
  then obtain r' where "fst ?run' = Inr r'"
    by (cases "fst ?run'") simp_all
  with inst have "fst (inner_export_session example_world ''p2'' (Some ''report.csv'') False example_machine
                        ''e1'' ''/t/parrec.yaml'' True True None) = Inl TypeError"
    by simp
  with r \<open>r = None\<close> show ?thesis
    by simp
qed

end
